theory Spec2Isabelle
  imports Main
begin

section \<open>Python values, exceptions and effects\<close>

text \<open>
  The program is a single script, \<^verbatim>\<open>app.py\<close>: three helper functions
  (\<^verbatim>\<open>get_schema_info\<close>, \<^verbatim>\<open>generate_sql\<close>, \<^verbatim>\<open>execute_query\<close>) and the block that
  handles one chat input. The database connection, the chat model, pandas and the
  display surface are external; they are parameters of the model.

  Strings are \<^typ>\<open>string\<close>: a character stands for a code point below 256. A row of a
  result set is a tuple of scalars; three kinds of scalar are modelled (text, integer,
  \<^verbatim>\<open>None\<close>).
\<close>

datatype scalar = SStr string | SInt int | SNull

type_synonym row = "scalar list"

text \<open>
  An exception carries the text that \<^verbatim>\<open>str(e)\<close> gives. Every exception of the model is
  an instance of \<^verbatim>\<open>Exception\<close>, so \<^verbatim>\<open>except Exception\<close> catches each of them.
  \<^verbatim>\<open>OtherError\<close> stands for what the collaborators raise (the driver's errors, the
  completion service's errors, pandas' errors).
\<close>

datatype exn = IndexError string | TypeError string | OtherError string

fun str_exn :: "exn \<Rightarrow> string" where
  "str_exn (IndexError m) = m"
| "str_exn (TypeError m) = m"
| "str_exn (OtherError m) = m"

text \<open>
  A Python computation over a state \<open>'w\<close> returns a value or raises, and leaves a state
  in both cases.
\<close>

type_synonym ('a, 'w) py = "'w \<Rightarrow> (exn + 'a) \<times> 'w"

definition ret :: "'a \<Rightarrow> ('a, 'w) py" where
  "ret x w = (Inr x, w)"

definition raise :: "exn \<Rightarrow> ('a, 'w) py" where
  "raise e w = (Inl e, w)"

definition bnd :: "('a, 'w) py \<Rightarrow> ('a \<Rightarrow> ('b, 'w) py) \<Rightarrow> ('b, 'w) py" where
  "bnd m f w = (case m w of (Inl e, w') \<Rightarrow> (Inl e, w') | (Inr x, w') \<Rightarrow> f x w')"

text \<open>\<^verbatim>\<open>try: m  except Exception as e: h(e)\<close>\<close>

definition try_except :: "('a, 'w) py \<Rightarrow> (exn \<Rightarrow> ('a, 'w) py) \<Rightarrow> ('a, 'w) py" where
  "try_except m h w = (case m w of (Inl e, w') \<Rightarrow> h e w' | (Inr x, w') \<Rightarrow> (Inr x, w'))"

text \<open>A step without effect on the state that may raise.\<close>

definition pure :: "exn + 'a \<Rightarrow> ('a, 'w) py" where
  "pure r w = (r, w)"

section \<open>The database connection\<close>

text \<open>
  The connection \<^verbatim>\<open>st.session_state.db\<close> and the cursor made from it live in the state
  \<open>'w\<close>. Each function of the script makes one cursor and uses only that one, so the
  cursor operations act on the state's current cursor. A column descriptor is the tuple
  of \<^verbatim>\<open>cursor.description\<close>: its item 0 is the column's name.
\<close>

type_synonym col_desc = "string \<times> scalar list"

record 'w driver =
  db_cursor :: "(unit, 'w) py"
  cursor_execute :: "string \<Rightarrow> (unit, 'w) py"
  cursor_fetchall :: "(row list, 'w) py"
  cursor_description :: "'w \<Rightarrow> col_desc list option"
  cursor_close :: "(unit, 'w) py"

section \<open>execute_query\<close>

text \<open>
  The first component of the pair that \<^verbatim>\<open>execute_query\<close> returns is a list of rows or
  a string; the caller tells them apart with \<^verbatim>\<open>isinstance(result, str)\<close>.
\<close>

datatype pyval = PyStr string | PyList "row list"

fun isinstance_str :: "pyval \<Rightarrow> bool" where
  "isinstance_str (PyStr s) = True"
| "isinstance_str (PyList rs) = False"

text \<open>
  \<^verbatim>\<open>[desc[0] for desc in cursor.description] if cursor.description else []\<close>:
  \<^verbatim>\<open>None\<close> and the empty sequence are both false.
\<close>

definition column_names :: "col_desc list option \<Rightarrow> string list" where
  "column_names description =
     (case description of
        None \<Rightarrow> []
      | Some ds \<Rightarrow> if ds = [] then [] else map fst ds)"

text \<open>The body of the \<^verbatim>\<open>try\<close> block of \<^verbatim>\<open>execute_query\<close>.\<close>

definition query_try :: "'w driver \<Rightarrow> string \<Rightarrow> (pyval \<times> string list, 'w) py" where
  "query_try drv query =
     bnd (db_cursor drv) (\<lambda>_.
     bnd (cursor_execute drv query) (\<lambda>_.
     bnd (cursor_fetchall drv) (\<lambda>results.
     bnd (\<lambda>w. (Inr (column_names (cursor_description drv w)), w)) (\<lambda>columns.
     bnd (cursor_close drv) (\<lambda>_.
     ret (PyList results, columns))))))"

definition execute_query :: "'w driver \<Rightarrow> string \<Rightarrow> (pyval \<times> string list, 'w) py" where
  "execute_query drv query =
     try_except (query_try drv query) (\<lambda>e. ret (PyStr (str_exn e), []))"

section \<open>String helpers of Python\<close>

definition NL :: string where
  "NL = [CHR 0x0A]"

text \<open>Decimal digits of a number, as \<^verbatim>\<open>str\<close> and the f-string print an \<^verbatim>\<open>int\<close>.\<close>

fun show_nat :: "nat \<Rightarrow> string" where
  "show_nat n =
     (if n < 10 then [char_of (48 + n)]
      else show_nat (n div 10) @ [char_of (48 + n mod 10)])"

declare show_nat.simps [simp del]

definition show_int :: "int \<Rightarrow> string" where
  "show_int i = (if i < 0 then ''-'' @ show_nat (nat (- i)) else show_nat (nat i))"

text \<open>\<^verbatim>\<open>f"{x}"\<close>: the value printed by \<^verbatim>\<open>format\<close>.\<close>

fun py_format :: "scalar \<Rightarrow> string" where
  "py_format (SStr s) = s"
| "py_format (SInt i) = show_int i"
| "py_format SNull = ''None''"

fun py_type_name :: "scalar \<Rightarrow> string" where
  "py_type_name (SStr s) = ''str''"
| "py_type_name (SInt i) = ''int''"
| "py_type_name SNull = ''NoneType''"

text \<open>\<^verbatim>\<open>t[0]\<close> on a tuple: IndexError on the empty tuple.\<close>

fun item0 :: "row \<Rightarrow> exn + scalar" where
  "item0 [] = Inl (IndexError ''tuple index out of range'')"
| "item0 (x # xs) = Inr x"

text \<open>\<^verbatim>\<open>[col[0] for col in rows]\<close>: raises at the first empty tuple.\<close>

fun first_items :: "row list \<Rightarrow> exn + scalar list" where
  "first_items [] = Inr []"
| "first_items (col # cols) =
     (case item0 col of
        Inl e \<Rightarrow> Inl e
      | Inr x \<Rightarrow> (case first_items cols of Inl e \<Rightarrow> Inl e | Inr xs \<Rightarrow> Inr (x # xs)))"

text \<open>
  \<^verbatim>\<open>sep.join(items)\<close>: every item must be a \<^verbatim>\<open>str\<close>; the first one that is not raises
  TypeError, with its index and type in the message.
\<close>

fun as_strs :: "nat \<Rightarrow> scalar list \<Rightarrow> exn + string list" where
  "as_strs i [] = Inr []"
| "as_strs i (SStr s # xs) =
     (case as_strs (Suc i) xs of Inl e \<Rightarrow> Inl e | Inr ss \<Rightarrow> Inr (s # ss))"
| "as_strs i (x # xs) =
     Inl (TypeError (''sequence item '' @ show_nat i @ '': expected str instance, ''
                      @ py_type_name x @ '' found''))"

fun intercalate :: "string \<Rightarrow> string list \<Rightarrow> string" where
  "intercalate sep [] = []"
| "intercalate sep [s] = s"
| "intercalate sep (s # t # ss) = s @ sep @ intercalate sep (t # ss)"

definition str_join :: "string \<Rightarrow> scalar list \<Rightarrow> exn + string" where
  "str_join sep items =
     (case as_strs 0 items of Inl e \<Rightarrow> Inl e | Inr ss \<Rightarrow> Inr (intercalate sep ss))"

text \<open>
  \<^verbatim>\<open>s.strip()\<close> and \<^verbatim>\<open>s.strip(chars)\<close> drop, from both ends, the longest run of
  characters of the given kind. Without an argument the kind is \<^verbatim>\<open>str.isspace\<close>; below
  code point 256 these are 9 to 13, 28 to 32, 133 and 160.
\<close>

definition py_isspace :: "char \<Rightarrow> bool" where
  "py_isspace c =
     (let n = (of_char c :: nat)
      in (9 \<le> n \<and> n \<le> 13) \<or> (28 \<le> n \<and> n \<le> 32) \<or> n = 133 \<or> n = 160)"

definition is_backtick :: "char \<Rightarrow> bool" where
  "is_backtick c = (c = CHR 0x60)"

definition strip :: "(char \<Rightarrow> bool) \<Rightarrow> string \<Rightarrow> string" where
  "strip P s = rev (dropWhile P (rev (dropWhile P s)))"

section \<open>get_schema_info\<close>

text \<open>
  The loop \<^verbatim>\<open>for table in tables\<close>; \<open>schema_info\<close> is the list built so far.
\<close>

fun describe_tables :: "'w driver \<Rightarrow> row list \<Rightarrow> string list \<Rightarrow> (string list, 'w) py" where
  "describe_tables drv [] schema_info = ret schema_info"
| "describe_tables drv (table # tables) schema_info =
     bnd (pure (item0 table)) (\<lambda>table_name.
     bnd (cursor_execute drv (''DESCRIBE '' @ py_format table_name)) (\<lambda>_.
     bnd (cursor_fetchall drv) (\<lambda>cols.
     bnd (pure (first_items cols)) (\<lambda>columns.
     bnd (pure (str_join '', '' columns)) (\<lambda>joined.
     describe_tables drv tables
       (schema_info @ [py_format table_name @ '' ('' @ joined @ '')'']))))))"

text \<open>The body of the \<^verbatim>\<open>try\<close> block of \<^verbatim>\<open>get_schema_info\<close>.\<close>

definition schema_try :: "'w driver \<Rightarrow> (string, 'w) py" where
  "schema_try drv =
     bnd (db_cursor drv) (\<lambda>_.
     bnd (cursor_execute drv ''SHOW TABLES'') (\<lambda>_.
     bnd (cursor_fetchall drv) (\<lambda>tables.
     bnd (describe_tables drv tables []) (\<lambda>schema_info.
     bnd (cursor_close drv) (\<lambda>_.
     ret (''Tables: '' @ intercalate '', '' schema_info))))))"

definition get_schema_info :: "'w driver \<Rightarrow> (string, 'w) py" where
  "get_schema_info drv = try_except (schema_try drv) (\<lambda>e. ret (str_exn e))"

section \<open>generate_sql\<close>

datatype message = AIMessage string | HumanMessage string

fun content :: "message \<Rightarrow> string" where
  "content (AIMessage c) = c"
| "content (HumanMessage c) = c"

text \<open>
  The environment of the script: the connection, the chat model \<^verbatim>\<open>llm\<close> (called with
  the list of messages, it answers with a message or raises), the constructor
  \<^verbatim>\<open>pd.DataFrame(rows, columns=...)\<close> and the widget \<^verbatim>\<open>st.dataframe(df)\<close>, which
  raises on a frame that it cannot show (two columns of one name).
\<close>

record ('w, 'df) env =
  db :: "'w driver"
  llm :: "message list \<Rightarrow> (message, 'w) py"
  DataFrame :: "row list \<Rightarrow> string list \<Rightarrow> exn + 'df"
  st_dataframe :: "'df \<Rightarrow> exn + unit"

text \<open>The template with both placeholders filled in.\<close>

definition prompt_text :: "string \<Rightarrow> string \<Rightarrow> string" where
  "prompt_text schema_info user_query =
     NL @ ''    You are an expert in MariaDB SQL. Convert the following natural language''
     @ NL @ ''    question into a valid SQL query. The database schema is:''
     @ NL @ ''    '' @ schema_info
     @ NL
     @ NL @ ''    Question: '' @ user_query
     @ NL
     @ NL @ ''    Return ONLY the SQL query, with no extra text or explanation.''
     @ NL @ ''    ''"

definition generate_sql :: "('w, 'df) env \<Rightarrow> string \<Rightarrow> string \<Rightarrow> (string, 'w) py" where
  "generate_sql e schema_info query =
     bnd (llm e [HumanMessage (prompt_text schema_info query)]) (\<lambda>response.
     ret (strip is_backtick (strip py_isspace (content response))))"

section \<open>The handler of a chat input\<close>

text \<open>
  The session holds the transcript \<^verbatim>\<open>st.session_state.chat_history\<close>, what the run
  has drawn on the page (the role of the chat bubble and the widget in it), and the
  state of the collaborators.
\<close>

datatype 'df widget = Markdown string | ErrorBox string | DataframeView 'df

record ('w, 'df) session =
  chat_history :: "message list"
  screen :: "(string \<times> 'df widget) list"
  ext :: 'w

definition append_history :: "message \<Rightarrow> (unit, ('w, 'df) session) py" where
  "append_history msg s = (Inr (), s\<lparr>chat_history := chat_history s @ [msg]\<rparr>)"

definition draw :: "string \<Rightarrow> 'df widget \<Rightarrow> (unit, ('w, 'df) session) py" where
  "draw role wd s = (Inr (), s\<lparr>screen := screen s @ [(role, wd)]\<rparr>)"

definition in_world :: "('a, 'w) py \<Rightarrow> ('a, ('w, 'df) session) py" where
  "in_world m s = (case m (ext s) of (r, w') \<Rightarrow> (r, s\<lparr>ext := w'\<rparr>))"

definition error_text :: "string \<Rightarrow> string \<Rightarrow> string" where
  "error_text sql_query result =
     ''**Generated SQL**: `'' @ sql_query @ ''`'' @ NL @ NL @ ''**Error**: '' @ result"

definition results_text :: "string \<Rightarrow> string" where
  "results_text sql_query =
     ''**Generated SQL**: `'' @ sql_query @ ''`'' @ NL @ NL @ ''**Results**:''"

definition no_results_text :: "string \<Rightarrow> string" where
  "no_results_text sql_query =
     ''**Generated SQL**: `'' @ sql_query @ ''`'' @ NL @ NL @ ''No results found.''"

text \<open>
  Steps 4 and 5 of the handler: run the SQL and show the answer. With rows, the frame is
  built first, then the turn is appended and its text drawn, then the table is drawn;
  a raise of \<^verbatim>\<open>pd.DataFrame\<close> or of \<^verbatim>\<open>st.dataframe\<close> leaves the handler.
\<close>

definition respond :: "('w, 'df) env \<Rightarrow> string \<Rightarrow> (unit, ('w, 'df) session) py" where
  "respond e sql_query =
     bnd (in_world (execute_query (db e) sql_query)) (\<lambda>(result, columns).
       case result of
         PyStr err \<Rightarrow>
           bnd (append_history (AIMessage (error_text sql_query err))) (\<lambda>_.
           draw ''assistant'' (ErrorBox (error_text sql_query err)))
       | PyList rows \<Rightarrow>
           if length rows > 0 then
             bnd (pure (DataFrame e rows columns)) (\<lambda>df.
             bnd (append_history (AIMessage (results_text sql_query))) (\<lambda>_.
             bnd (draw ''assistant'' (Markdown (results_text sql_query))) (\<lambda>_.
             bnd (pure (st_dataframe e df)) (\<lambda>_.
             draw ''assistant'' (DataframeView df)))))
           else
             bnd (append_history (AIMessage (no_results_text sql_query))) (\<lambda>_.
             draw ''assistant'' (Markdown (no_results_text sql_query))))"

text \<open>
  \<^verbatim>\<open>if user_query:\<close> and the block under it. \<^verbatim>\<open>st.chat_input\<close> gives \<^verbatim>\<open>None\<close> or
  the text typed; \<^verbatim>\<open>None\<close> and the empty text are false.
\<close>

definition on_user_query ::
  "('w, 'df) env \<Rightarrow> string option \<Rightarrow> (unit, ('w, 'df) session) py" where
  "on_user_query e user_query =
     (case user_query of
        None \<Rightarrow> ret ()
      | Some q \<Rightarrow>
          if q = [] then ret ()
          else
            bnd (append_history (HumanMessage q)) (\<lambda>_.
            bnd (draw ''user'' (Markdown q)) (\<lambda>_.
            bnd (in_world (get_schema_info (db e))) (\<lambda>schema_info.
            bnd (in_world (generate_sql e schema_info q)) (\<lambda>sql_query.
            respond e sql_query)))))"

section \<open>Notions of the specification\<close>

text \<open>What a string starts or ends with; Python's \<^verbatim>\<open>in\<close> on strings.\<close>

fun starts_with_kind :: "(char \<Rightarrow> bool) \<Rightarrow> string \<Rightarrow> bool" where
  "starts_with_kind P [] = False"
| "starts_with_kind P (c # cs) = P c"

definition ends_with_kind :: "(char \<Rightarrow> bool) \<Rightarrow> string \<Rightarrow> bool" where
  "ends_with_kind P s = starts_with_kind P (rev s)"

fun starts_with :: "string \<Rightarrow> string \<Rightarrow> bool" where
  "starts_with [] s = True"
| "starts_with (n # ns) [] = False"
| "starts_with (n # ns) (c # cs) = (n = c \<and> starts_with ns cs)"

definition ends_with :: "string \<Rightarrow> string \<Rightarrow> bool" where
  "ends_with suffix s = starts_with (rev suffix) (rev s)"

fun contains :: "string \<Rightarrow> string \<Rightarrow> bool" where
  "contains needle [] = (needle = [])"
| "contains needle (c # cs) = (starts_with needle (c # cs) \<or> contains needle cs)"

text \<open>
  The schema description of the specification: tables in order, each with its columns
  in order, rendered as \<^verbatim>\<open>Tables: t1 (c1, c2, ...), t2 (c1, ...), ...\<close>.
\<close>

type_synonym schema_description = "(string \<times> string list) list"

definition render_table :: "string \<times> string list \<Rightarrow> string" where
  "render_table tc = fst tc @ '' ('' @ intercalate '', '' (snd tc) @ '')''"

definition render_schema :: "schema_description \<Rightarrow> string" where
  "render_schema sd = ''Tables: '' @ intercalate '', '' (map render_table sd)"

text \<open>
  The metadata calls succeed and report the schema \<open>sd\<close>: each \<^verbatim>\<open>DESCRIBE\<close> runs, and
  its rows start with the column names; the result is the state after the last call.
\<close>

fun describe_calls_ok :: "'w driver \<Rightarrow> schema_description \<Rightarrow> 'w \<Rightarrow> 'w option" where
  "describe_calls_ok drv [] w = Some w"
| "describe_calls_ok drv (tc # sd) w =
     (case cursor_execute drv (''DESCRIBE '' @ fst tc) w of
        (Inl e, w1) \<Rightarrow> None
      | (Inr u, w1) \<Rightarrow>
          (case cursor_fetchall drv w1 of
             (Inl e, w2) \<Rightarrow> None
           | (Inr cols, w2) \<Rightarrow>
               if first_items cols = Inr (map SStr (snd tc))
               then describe_calls_ok drv sd w2 else None))"

definition metadata_calls_ok :: "'w driver \<Rightarrow> schema_description \<Rightarrow> 'w \<Rightarrow> 'w option" where
  "metadata_calls_ok drv sd w =
     (case db_cursor drv w of
        (Inl e, w1) \<Rightarrow> None
      | (Inr u, w1) \<Rightarrow>
          (case cursor_execute drv ''SHOW TABLES'' w1 of
             (Inl e, w2) \<Rightarrow> None
           | (Inr u, w2) \<Rightarrow>
               (case cursor_fetchall drv w2 of
                  (Inl e, w3) \<Rightarrow> None
                | (Inr tables, w3) \<Rightarrow>
                    if first_items tables = Inr (map (\<lambda>tc. SStr (fst tc)) sd)
                    then (case describe_calls_ok drv sd w3 of
                            None \<Rightarrow> None
                          | Some w4 \<Rightarrow>
                              (case cursor_close drv w4 of
                                 (Inl e, w5) \<Rightarrow> None
                               | (Inr u, w5) \<Rightarrow> Some w5))
                    else None)))"

text \<open>
  A driver call of \<^verbatim>\<open>execute_query\<close> fails: \<^verbatim>\<open>cursor()\<close>, \<^verbatim>\<open>execute(query)\<close>,
  \<^verbatim>\<open>fetchall()\<close> or \<^verbatim>\<open>close()\<close> raises \<open>x\<close> and leaves the state \<open>w'\<close>, the calls
  before it having returned.
\<close>

inductive query_call_fails :: "'w driver \<Rightarrow> string \<Rightarrow> 'w \<Rightarrow> exn \<Rightarrow> 'w \<Rightarrow> bool"
  for drv :: "'w driver" and query :: string where
  query_cursor_raises:
    "db_cursor drv w = (Inl x, w') \<Longrightarrow> query_call_fails drv query w x w'"
| query_execute_raises:
    "db_cursor drv w = (Inr u, w1) \<Longrightarrow>
     cursor_execute drv query w1 = (Inl x, w') \<Longrightarrow>
     query_call_fails drv query w x w'"
| query_fetch_raises:
    "db_cursor drv w = (Inr u, w1) \<Longrightarrow>
     cursor_execute drv query w1 = (Inr v, w2) \<Longrightarrow>
     cursor_fetchall drv w2 = (Inl x, w') \<Longrightarrow>
     query_call_fails drv query w x w'"
| query_close_raises:
    "db_cursor drv w = (Inr u, w1) \<Longrightarrow>
     cursor_execute drv query w1 = (Inr v, w2) \<Longrightarrow>
     cursor_fetchall drv w2 = (Inr rows, w3) \<Longrightarrow>
     cursor_close drv w3 = (Inl x, w') \<Longrightarrow>
     query_call_fails drv query w x w'"

code_pred (modes: i \<Rightarrow> i \<Rightarrow> i \<Rightarrow> o \<Rightarrow> o \<Rightarrow> bool) query_call_fails .

text \<open>
  A metadata call fails. The calls are those of the driver, in the order the schema
  inspection makes them: \<^verbatim>\<open>cursor()\<close>, \<^verbatim>\<open>SHOW TABLES\<close> and its fetch, then for every
  table \<^verbatim>\<open>DESCRIBE\<close> and its fetch, then \<^verbatim>\<open>close()\<close>. \<open>tables_described\<close> says that
  the calls for all the listed tables return (and report columns by name);
  \<open>describe_call_fails\<close> that the calls for some table are reached and one of them
  raises \<open>x\<close>, leaving the state \<open>w'\<close>; \<open>metadata_call_fails\<close> the same for the whole
  inspection.
\<close>

inductive tables_described :: "'w driver \<Rightarrow> row list \<Rightarrow> 'w \<Rightarrow> 'w \<Rightarrow> bool"
  for drv :: "'w driver" where
  no_table: "tables_described drv [] w w"
| table_described:
    "cursor_execute drv (''DESCRIBE '' @ py_format name) w = (Inr u, w1) \<Longrightarrow>
     cursor_fetchall drv w1 = (Inr cols, w2) \<Longrightarrow>
     first_items cols = Inr columns \<Longrightarrow>
     str_join '', '' columns = Inr joined \<Longrightarrow>
     tables_described drv tables w2 w' \<Longrightarrow>
     tables_described drv ((name # others) # tables) w w'"

code_pred (modes: i \<Rightarrow> i \<Rightarrow> i \<Rightarrow> o \<Rightarrow> bool) tables_described .

inductive describe_call_fails :: "'w driver \<Rightarrow> row list \<Rightarrow> 'w \<Rightarrow> exn \<Rightarrow> 'w \<Rightarrow> bool"
  for drv :: "'w driver" where
  describe_raises:
    "cursor_execute drv (''DESCRIBE '' @ py_format name) w = (Inl x, w') \<Longrightarrow>
     describe_call_fails drv ((name # others) # tables) w x w'"
| describe_fetch_raises:
    "cursor_execute drv (''DESCRIBE '' @ py_format name) w = (Inr u, w1) \<Longrightarrow>
     cursor_fetchall drv w1 = (Inl x, w') \<Longrightarrow>
     describe_call_fails drv ((name # others) # tables) w x w'"
| later_table:
    "cursor_execute drv (''DESCRIBE '' @ py_format name) w = (Inr u, w1) \<Longrightarrow>
     cursor_fetchall drv w1 = (Inr cols, w2) \<Longrightarrow>
     first_items cols = Inr columns \<Longrightarrow>
     str_join '', '' columns = Inr joined \<Longrightarrow>
     describe_call_fails drv tables w2 x w' \<Longrightarrow>
     describe_call_fails drv ((name # others) # tables) w x w'"

code_pred (modes: i \<Rightarrow> i \<Rightarrow> i \<Rightarrow> o \<Rightarrow> o \<Rightarrow> bool) describe_call_fails .

inductive metadata_call_fails :: "'w driver \<Rightarrow> 'w \<Rightarrow> exn \<Rightarrow> 'w \<Rightarrow> bool"
  for drv :: "'w driver" where
  cursor_raises:
    "db_cursor drv w = (Inl x, w') \<Longrightarrow> metadata_call_fails drv w x w'"
| show_tables_raises:
    "db_cursor drv w = (Inr u, w1) \<Longrightarrow>
     cursor_execute drv ''SHOW TABLES'' w1 = (Inl x, w') \<Longrightarrow>
     metadata_call_fails drv w x w'"
| show_tables_fetch_raises:
    "db_cursor drv w = (Inr u, w1) \<Longrightarrow>
     cursor_execute drv ''SHOW TABLES'' w1 = (Inr v, w2) \<Longrightarrow>
     cursor_fetchall drv w2 = (Inl x, w') \<Longrightarrow>
     metadata_call_fails drv w x w'"
| table_call_raises:
    "db_cursor drv w = (Inr u, w1) \<Longrightarrow>
     cursor_execute drv ''SHOW TABLES'' w1 = (Inr v, w2) \<Longrightarrow>
     cursor_fetchall drv w2 = (Inr tables, w3) \<Longrightarrow>
     describe_call_fails drv tables w3 x w' \<Longrightarrow>
     metadata_call_fails drv w x w'"
| close_raises:
    "db_cursor drv w = (Inr u, w1) \<Longrightarrow>
     cursor_execute drv ''SHOW TABLES'' w1 = (Inr v, w2) \<Longrightarrow>
     cursor_fetchall drv w2 = (Inr tables, w3) \<Longrightarrow>
     tables_described drv tables w3 w4 \<Longrightarrow>
     cursor_close drv w4 = (Inl x, w') \<Longrightarrow>
     metadata_call_fails drv w x w'"

code_pred (modes: i \<Rightarrow> i \<Rightarrow> o \<Rightarrow> o \<Rightarrow> bool) metadata_call_fails .

text \<open>
  An unchanged database: \<open>R\<close> relates two states of the connection that hold the same
  database, and the driver answers every call alike in related states and keeps them
  related.
\<close>

definition same_outcome ::
  "('w \<Rightarrow> 'w \<Rightarrow> bool) \<Rightarrow> (exn + 'a) \<times> 'w \<Rightarrow> (exn + 'a) \<times> 'w \<Rightarrow> bool" where
  "same_outcome R a b = (fst a = fst b \<and> R (snd a) (snd b))"

definition alike :: "('w \<Rightarrow> 'w \<Rightarrow> bool) \<Rightarrow> ('a, 'w) py \<Rightarrow> bool" where
  "alike R m = (\<forall>w v. R w v \<longrightarrow> same_outcome R (m w) (m v))"

definition answers_alike :: "('w \<Rightarrow> 'w \<Rightarrow> bool) \<Rightarrow> 'w driver \<Rightarrow> bool" where
  "answers_alike R drv =
     (alike R (db_cursor drv)
      \<and> (\<forall>q. alike R (cursor_execute drv q))
      \<and> alike R (cursor_fetchall drv)
      \<and> alike R (cursor_close drv))"

section \<open>An example database and session\<close>

text \<open>
  A database \<open>shop\<close> with the single table \<open>users(id, name)\<close> of two rows. The state
  holds whether the connection is up, how many statements the server has run, and the
  cursor's pending result set and descriptor.
\<close>

record shop =
  online :: bool
  served :: nat
  pending :: "row list option"
  pdesc :: "col_desc list option"

definition shop_cursor :: "(unit, shop) py" where
  "shop_cursor w =
     (if online w then (Inr (), w\<lparr>pending := None, pdesc := None\<rparr>)
      else (Inl (OtherError ''MySQL Connection not available.''), w))"

definition shop_answer :: "string \<Rightarrow> exn + row list \<times> col_desc list option" where
  "shop_answer q =
     (if q = ''SHOW TABLES'' then
        Inr ([[SStr ''users'']], Some [(''Tables_in_shop'', [])])
      else if q = ''DESCRIBE users'' then
        Inr ([[SStr ''id'', SStr ''int'', SStr ''NO'', SStr ''PRI'', SNull, SStr []],
              [SStr ''name'', SStr ''varchar(64)'', SStr ''YES'', SStr [], SNull, SStr []]],
             Some [(''Field'', []), (''Type'', []), (''Null'', []), (''Key'', []),
                   (''Default'', []), (''Extra'', [])])
      else if q = ''SELECT COUNT(*) FROM users;'' then
        Inr ([[SInt 2]], Some [(''COUNT(*)'', [])])
      else if q = ''SELECT * FROM users WHERE id = 0;'' then
        Inr ([], Some [(''id'', []), (''name'', [])])
      else if q = ''DELETE FROM users WHERE id = 0;'' then
        Inr ([], None)
      else if q = ''SELECT * FROM orders;'' then
        Inl (OtherError ''1146 (42S02): Table 'shop.orders' doesn't exist'')
      else
        Inl (OtherError ''1064 (42000): You have an error in your SQL syntax''))"

definition shop_execute :: "string \<Rightarrow> (unit, shop) py" where
  "shop_execute q w =
     (case shop_answer q of
        Inl e \<Rightarrow> (Inl e, w\<lparr>served := Suc (served w)\<rparr>)
      | Inr (rows, d) \<Rightarrow>
          (Inr (), w\<lparr>served := Suc (served w), pending := Some rows, pdesc := d\<rparr>))"

definition shop_fetchall :: "(row list, shop) py" where
  "shop_fetchall w =
     (case pending w of
        None \<Rightarrow> (Inl (OtherError ''No result set to fetch from.''), w)
      | Some rows \<Rightarrow> (Inr rows, w\<lparr>pending := None\<rparr>))"

definition shop_close :: "(unit, shop) py" where
  "shop_close w = (Inr (), w\<lparr>pending := None, pdesc := None\<rparr>)"

definition shop_driver :: "shop driver" where
  "shop_driver =
     \<lparr>db_cursor = shop_cursor, cursor_execute = shop_execute,
      cursor_fetchall = shop_fetchall, cursor_description = pdesc,
      cursor_close = shop_close\<rparr>"

text \<open>
  Three more drivers on the same state: one whose database has a second table,
  \<open>secrets\<close>, that the user may not describe; one that loses the connection while
  fetching; one whose cursor cannot be closed.
\<close>

definition vault_answer :: "string \<Rightarrow> exn + row list \<times> col_desc list option" where
  "vault_answer q =
     (if q = ''SHOW TABLES'' then
        Inr ([[SStr ''users''], [SStr ''secrets'']], Some [(''Tables_in_shop'', [])])
      else if q = ''DESCRIBE secrets'' then
        Inl (OtherError ''1142 (42000): SELECT command denied to user for table secrets'')
      else shop_answer q)"

definition vault_execute :: "string \<Rightarrow> (unit, shop) py" where
  "vault_execute q w =
     (case vault_answer q of
        Inl e \<Rightarrow> (Inl e, w\<lparr>served := Suc (served w)\<rparr>)
      | Inr (rows, d) \<Rightarrow>
          (Inr (), w\<lparr>served := Suc (served w), pending := Some rows, pdesc := d\<rparr>))"

definition vault_driver :: "shop driver" where
  "vault_driver = shop_driver\<lparr>cursor_execute := vault_execute\<rparr>"

definition lossy_driver :: "shop driver" where
  "lossy_driver =
     shop_driver\<lparr>cursor_fetchall :=
       (\<lambda>w. (Inl (OtherError ''2013: Lost connection to MySQL server during query''), w))\<rparr>"

definition stuck_driver :: "shop driver" where
  "stuck_driver =
     shop_driver\<lparr>cursor_close := (\<lambda>w. (Inl (OtherError ''Unread result found''), w))\<rparr>"

definition shop_up :: shop where
  "shop_up = \<lparr>online = True, served = 0, pending = None, pdesc = None\<rparr>"

definition shop_down :: shop where
  "shop_down = \<lparr>online = False, served = 0, pending = None, pdesc = None\<rparr>"

definition same_shop :: "shop \<Rightarrow> shop \<Rightarrow> bool" where
  "same_shop w v = (online w = online v \<and> pending w = pending v \<and> pdesc w = pdesc v)"

text \<open>
  A chat model that answers every prompt with the same text, one whose service is
  unreachable, a data frame that keeps the rows and the column names, and a widget
  that refuses a frame with two columns of one name.
\<close>

type_synonym frame = "row list \<times> string list"

definition frame_widget :: "frame \<Rightarrow> exn + unit" where
  "frame_widget df =
     (if distinct (snd df) then Inr ()
      else Inl (OtherError ''Duplicate column names found''))"

definition answering :: "string \<Rightarrow> (shop, frame) env" where
  "answering reply =
     \<lparr>db = shop_driver, llm = (\<lambda>msgs. ret (AIMessage reply)),
      DataFrame = (\<lambda>rows columns. Inr (rows, columns)), st_dataframe = frame_widget\<rparr>"

definition unreachable :: "(shop, frame) env" where
  "unreachable =
     \<lparr>db = shop_driver, llm = (\<lambda>msgs. raise (OtherError ''Connection error.'')),
      DataFrame = (\<lambda>rows columns. Inr (rows, columns)), st_dataframe = frame_widget\<rparr>"

definition greeting :: message where
  "greeting = AIMessage
     ''Hello! I'm an Assistflow.ai SQL assistant. Ask me anything about your database.''"

definition session0 :: "shop \<Rightarrow> (shop, frame) session" where
  "session0 w = \<lparr>chat_history = [greeting], screen = [], ext = w\<rparr>"

section \<open>The outcomes of a computation\<close>

lemma py_cases:
  obtains (Raises) x w' where "m w = (Inl x, w')"
  | (Returns) y w' where "m w = (Inr y, w')"
  by (cases "m w") (metis old.prod.exhaust sum.exhaust_sel surj_pair)

section \<open>The functions of the script, case by case\<close>

lemma query_try_returns_list:
  assumes "query_try drv q w = (Inr r, w')"
  shows "\<exists>u w1 v w2 rows w3 c.
           db_cursor drv w = (Inr u, w1) \<and> cursor_execute drv q w1 = (Inr v, w2)
         \<and> cursor_fetchall drv w2 = (Inr rows, w3) \<and> cursor_close drv w3 = (Inr c, w')
         \<and> r = (PyList rows, column_names (cursor_description drv w3))"
  using assms unfolding query_try_def bnd_def ret_def
  by (auto split: prod.splits sum.splits)

lemma execute_query_Inl:
  "query_try drv q w = (Inl x, w') \<Longrightarrow>
   execute_query drv q w = (Inr (PyStr (str_exn x), []), w')"
  by (simp add: execute_query_def try_except_def ret_def)

lemma execute_query_Inr:
  "query_try drv q w = (Inr r, w') \<Longrightarrow> execute_query drv q w = (Inr r, w')"
  by (simp add: execute_query_def try_except_def)

lemma query_call_fails_raises:
  assumes "query_call_fails drv q w x w'"
  shows "query_try drv q w = (Inl x, w')"
  using assms by cases (simp_all add: query_try_def bnd_def)

lemma query_try_returns:
  assumes "db_cursor drv w = (Inr u, w1)" and "cursor_execute drv q w1 = (Inr v, w2)"
    and "cursor_fetchall drv w2 = (Inr rows, w3)" and "cursor_close drv w3 = (Inr c, w4)"
  shows "query_try drv q w =
           (Inr (PyList rows,
                 case cursor_description drv w3 of None \<Rightarrow> [] | Some ds \<Rightarrow> map fst ds), w4)"
proof -
  have "column_names d = (case d of None \<Rightarrow> [] | Some ds \<Rightarrow> map fst ds)"
    for d :: "col_desc list option"
    by (simp add: column_names_def split: option.splits)
  with assms show ?thesis
    by (simp add: query_try_def bnd_def ret_def)
qed

lemma query_calls_cases:
  obtains (Fails) x w' where "query_call_fails drv q w x w'"
  | (Return) u w1 v w2 rows w3 c w4 where
      "db_cursor drv w = (Inr u, w1)" "cursor_execute drv q w1 = (Inr v, w2)"
      "cursor_fetchall drv w2 = (Inr rows, w3)" "cursor_close drv w3 = (Inr c, w4)"
proof (cases rule: py_cases [of "db_cursor drv" w])
  case (Raises x w')
  then show ?thesis by (blast intro: Fails query_cursor_raises)
next
  case c: (Returns u w1)
  show ?thesis
  proof (cases rule: py_cases [of "cursor_execute drv q" w1])
    case (Raises x w')
    with c show ?thesis by (blast intro: Fails query_execute_raises)
  next
    case e: (Returns v w2)
    show ?thesis
    proof (cases rule: py_cases [of "cursor_fetchall drv" w2])
      case (Raises x w')
      with c e show ?thesis by (blast intro: Fails query_fetch_raises)
    next
      case f: (Returns rows w3)
      show ?thesis
      proof (cases rule: py_cases [of "cursor_close drv" w3])
        case (Raises x w')
        with c e f show ?thesis by (blast intro: Fails query_close_raises)
      next
        case (Returns cl w4)
        with c e f show ?thesis by (rule Return)
      qed
    qed
  qed
qed

lemma tables_described_returns:
  assumes "tables_described drv tables w w'"
  shows "\<exists>info. describe_tables drv tables acc w = (Inr info, w')"
  using assms
proof (induction arbitrary: acc rule: tables_described.induct)
  case (no_table w)
  show ?case by (simp add: ret_def)
next
  case (table_described name w u w1 cols w2 columns joined tables w' others)
  from table_described.IH [of "acc @ [py_format name @ '' ('' @ joined @ '')'']"]
  obtain info where "describe_tables drv tables
      (acc @ [py_format name @ '' ('' @ joined @ '')'']) w2 = (Inr info, w')"
    by blast
  with table_described.hyps show ?case
    by (simp add: bnd_def pure_def)
qed

lemma describe_call_fails_raises:
  assumes "describe_call_fails drv tables w x w'"
  shows "describe_tables drv tables acc w = (Inl x, w')"
  using assms
proof (induction arbitrary: acc rule: describe_call_fails.induct)
  case (describe_raises name w x w' others tables)
  then show ?case by (simp add: bnd_def pure_def)
next
  case (describe_fetch_raises name w u w1 x w' others tables)
  then show ?case by (simp add: bnd_def pure_def)
next
  case (later_table name w u w1 cols w2 columns joined tables x w' others)
  from later_table.IH [of "acc @ [py_format name @ '' ('' @ joined @ '')'']"]
    later_table.hyps
  show ?case by (simp add: bnd_def pure_def)
qed

lemma metadata_call_fails_raises:
  assumes "metadata_call_fails drv w x w'"
  shows "schema_try drv w = (Inl x, w')"
  using assms
proof cases
  case cursor_raises
  then show ?thesis by (simp add: schema_try_def bnd_def)
next
  case (show_tables_raises u w1)
  then show ?thesis by (simp add: schema_try_def bnd_def)
next
  case (show_tables_fetch_raises u w1 v w2)
  then show ?thesis by (simp add: schema_try_def bnd_def)
next
  case (table_call_raises u w1 v w2 tables w3)
  from describe_call_fails_raises [OF table_call_raises(4), of "[]"] table_call_raises(1-3)
  show ?thesis by (simp add: schema_try_def bnd_def)
next
  case (close_raises u w1 v w2 tables w3 w4)
  from tables_described_returns [OF close_raises(4), of "[]"] obtain info where
    "describe_tables drv tables [] w3 = (Inr info, w4)" by blast
  with close_raises(1-3,5) show ?thesis by (simp add: schema_try_def bnd_def)
qed

lemma get_schema_info_Inl:
  "schema_try drv w = (Inl x, w') \<Longrightarrow> get_schema_info drv w = (Inr (str_exn x), w')"
  by (simp add: get_schema_info_def try_except_def ret_def)

lemma get_schema_info_Inr:
  "schema_try drv w = (Inr t, w') \<Longrightarrow> get_schema_info drv w = (Inr t, w')"
  by (simp add: get_schema_info_def try_except_def)

lemma get_schema_info_returns: "\<exists>t w'. get_schema_info drv w = (Inr t, w')"
  by (cases rule: py_cases [of "schema_try drv" w])
     (simp_all add: get_schema_info_Inl get_schema_info_Inr)

lemma generate_sql_Inl:
  "llm e [HumanMessage (prompt_text schema q)] w = (Inl x, w') \<Longrightarrow>
   generate_sql e schema q w = (Inl x, w')"
  by (simp add: generate_sql_def bnd_def)

lemma generate_sql_Inr:
  "llm e [HumanMessage (prompt_text schema q)] w = (Inr r, w') \<Longrightarrow>
   generate_sql e schema q w = (Inr (strip is_backtick (strip py_isspace (content r))), w')"
  by (simp add: generate_sql_def bnd_def ret_def)

lemma on_user_query_steps:
  assumes "q \<noteq> []" and "get_schema_info (db e) (ext s) = (Inr schema, w1)"
  shows "on_user_query e (Some q) s =
           bnd (in_world (generate_sql e schema q)) (respond e)
             (s\<lparr>chat_history := chat_history s @ [HumanMessage q],
                screen := screen s @ [(''user'', Markdown q)],
                ext := w1\<rparr>)"
  using assms
  by (simp add: on_user_query_def append_history_def draw_def bnd_def in_world_def)

lemma respond_error:
  assumes "execute_query (db e) sql (ext s) = (Inr (PyStr msg, cols), w')"
  shows "respond e sql s =
           (Inr (), s\<lparr>ext := w',
                      chat_history := chat_history s @ [AIMessage (error_text sql msg)],
                      screen := screen s @ [(''assistant'', ErrorBox (error_text sql msg))]\<rparr>)"
  using assms
  by (simp add: respond_def append_history_def draw_def bnd_def in_world_def)

lemma respond_no_rows:
  assumes "execute_query (db e) sql (ext s) = (Inr (PyList [], cols), w')"
  shows "respond e sql s =
           (Inr (), s\<lparr>ext := w',
                      chat_history := chat_history s @ [AIMessage (no_results_text sql)],
                      screen := screen s @ [(''assistant'', Markdown (no_results_text sql))]\<rparr>)"
  using assms
  by (simp add: respond_def append_history_def draw_def bnd_def in_world_def)

lemma respond_rows:
  assumes "execute_query (db e) sql (ext s) = (Inr (PyList rows, cols), w')"
    and "rows \<noteq> []" and "DataFrame e rows cols = Inr df" and "st_dataframe e df = Inr u"
  shows "respond e sql s =
           (Inr (), s\<lparr>ext := w',
                      chat_history := chat_history s @ [AIMessage (results_text sql)],
                      screen := screen s @ [(''assistant'', Markdown (results_text sql)),
                                            (''assistant'', DataframeView df)]\<rparr>)"
  using assms
  by (simp add: respond_def append_history_def draw_def bnd_def in_world_def pure_def)

lemma respond_widget_raises:
  assumes "execute_query (db e) sql (ext s) = (Inr (PyList rows, cols), w')"
    and "rows \<noteq> []" and "DataFrame e rows cols = Inr df" and "st_dataframe e df = Inl x"
  shows "respond e sql s =
           (Inl x, s\<lparr>ext := w',
                      chat_history := chat_history s @ [AIMessage (results_text sql)],
                      screen := screen s @ [(''assistant'', Markdown (results_text sql))]\<rparr>)"
  using assms
  by (simp add: respond_def append_history_def draw_def bnd_def in_world_def pure_def)

lemma respond_frame_raises:
  assumes "execute_query (db e) sql (ext s) = (Inr (PyList rows, cols), w')"
    and "rows \<noteq> []" and "DataFrame e rows cols = Inl x"
  shows "respond e sql s = (Inl x, s\<lparr>ext := w'\<rparr>)"
  using assms
  by (simp add: respond_def bnd_def in_world_def pure_def)

section \<open>Strings\<close>

lemma starts_with_append: "starts_with n (n @ r)"
  by (induction n) simp_all

lemma contains_append: "contains n (p @ n @ r)"
proof (induction p)
  case Nil
  show ?case
  proof (cases "n @ r")
    case Nil
    then show ?thesis by simp
  next
    case (Cons c cs)
    have "starts_with n (n @ r)" by (rule starts_with_append)
    with Cons show ?thesis by simp
  qed
next
  case (Cons a p)
  then show ?case by simp
qed

lemma ends_with_append: "ends_with n (p @ n)"
  by (simp add: ends_with_def starts_with_append)

lemma starts_with_kind_iff: "starts_with_kind P s \<longleftrightarrow> s \<noteq> [] \<and> P (hd s)"
  by (cases s) simp_all

lemma strip_no_trailing: "\<not> ends_with_kind P (strip P s)"
  unfolding ends_with_kind_def strip_def rev_rev_ident starts_with_kind_iff
  using hd_dropWhile by blast

lemma strip_no_leading: "\<not> starts_with_kind P (strip P s)"
proof
  let ?t = "dropWhile P s"
  let ?u = "dropWhile P (rev ?t)"
  assume "starts_with_kind P (strip P s)"
  then have u: "?u \<noteq> []" and p: "P (last ?u)"
    by (simp_all add: strip_def starts_with_kind_iff hd_rev)
  have "rev ?t = takeWhile P (rev ?t) @ ?u"
    by simp
  then have "last (rev ?t) = last ?u"
    using u by (metis last_appendR)
  moreover have t: "?t \<noteq> []"
  proof
    assume "?t = []"
    then have "?u = []" by (simp only: rev.simps dropWhile.simps)
    with u show False by simp
  qed
  ultimately have "hd ?t = last ?u"
    by (simp add: last_rev)
  moreover have "\<not> P (hd ?t)"
    using t by (rule hd_dropWhile)
  ultimately show False
    using p by simp
qed

lemma strip_unchanged:
  assumes "\<not> starts_with_kind P s" and "\<not> ends_with_kind P s"
  shows "strip P s = s"
proof -
  have a: "dropWhile P s = s"
    using assms(1) by (cases s) simp_all
  have "dropWhile P (rev s) = rev s"
    using assms(2) by (cases "rev s") (simp_all add: ends_with_kind_def)
  with a show ?thesis by (simp add: strip_def)
qed

lemma as_strs_map: "as_strs i (map SStr cs) = Inr cs"
  by (induction cs arbitrary: i) simp_all

lemma str_join_strs: "str_join sep (map SStr cs) = Inr (intercalate sep cs)"
  by (simp add: str_join_def as_strs_map)

lemma first_items_Nil: "first_items rows = Inr [] \<Longrightarrow> rows = []"
  by (cases rows) (auto split: sum.splits)

lemma first_items_Cons:
  assumes "first_items rows = Inr (x # xs)"
  obtains r rs where "rows = (x # r) # rs" and "first_items rs = Inr xs"
proof (cases rows)
  case Nil
  with assms show ?thesis by simp
next
  case (Cons a rs)
  show ?thesis
  proof (cases a)
    case Nil
    with Cons assms show ?thesis by simp
  next
    case (Cons y r)
    with \<open>rows = a # rs\<close> assms that show ?thesis
      by (auto split: sum.splits)
  qed
qed

section \<open>The example database, evaluated\<close>

lemmas shop_defs =
  shop_driver_def shop_cursor_def shop_execute_def shop_fetchall_def shop_close_def
  shop_answer_def shop_up_def shop_down_def

lemmas py_defs = bnd_def ret_def raise_def pure_def try_except_def in_world_def

lemma shop_schema:
  "get_schema_info shop_driver shop_up = (Inr ''Tables: users (id, name)'', shop_up\<lparr>served := 2\<rparr>)"
  by (simp add: get_schema_info_def schema_try_def py_defs shop_defs str_join_def)

lemma shop_schema_again:
  "get_schema_info shop_driver (shop_up\<lparr>served := 2\<rparr>) =
     (Inr ''Tables: users (id, name)'', shop_up\<lparr>served := 4\<rparr>)"
  by (simp add: get_schema_info_def schema_try_def py_defs shop_defs str_join_def)

lemma shop_query_orders:
  "execute_query shop_driver ''SELECT * FROM orders;'' (shop_up\<lparr>served := 2\<rparr>) =
     (Inr (PyStr ''1146 (42S02): Table 'shop.orders' doesn't exist'', []),
      shop_up\<lparr>served := 3\<rparr>)"
  by (simp add: execute_query_def query_try_def py_defs shop_defs)

lemma shop_query_nobody:
  "execute_query shop_driver ''SELECT * FROM users WHERE id = 0;'' (shop_up\<lparr>served := 2\<rparr>) =
     (Inr (PyList [], [''id'', ''name'']), shop_up\<lparr>served := 3\<rparr>)"
  by (simp add: execute_query_def query_try_def py_defs shop_defs column_names_def)

lemma shop_query_count_again:
  "execute_query shop_driver ''SELECT COUNT(*) FROM users;'' (shop_up\<lparr>served := 4\<rparr>) =
     (Inr (PyList [[SInt 2]], [''COUNT(*)'']), shop_up\<lparr>served := 5\<rparr>)"
  by (simp add: execute_query_def query_try_def py_defs shop_defs column_names_def)

lemma answering_sql:
  "generate_sql (answering reply) schema q w =
     (Inr (strip is_backtick (strip py_isspace reply)), w)"
  by (simp add: generate_sql_def answering_def bnd_def ret_def)

lemma strip_plain_orders:
  "strip is_backtick (strip py_isspace ''SELECT * FROM orders;'') = ''SELECT * FROM orders;''"
  by (simp add: strip_def is_backtick_def py_isspace_def)

lemma strip_plain_nobody:
  "strip is_backtick (strip py_isspace ''SELECT * FROM users WHERE id = 0;'') =
     ''SELECT * FROM users WHERE id = 0;''"
  by (simp add: strip_def is_backtick_def py_isspace_def)

lemma strip_fenced_count:
  "strip is_backtick (strip py_isspace ''`SELECT COUNT(*) FROM users;`'') =
     ''SELECT COUNT(*) FROM users;''"
  by (simp add: strip_def is_backtick_def py_isspace_def)

lemma shop_run_unreachable:
  "on_user_query unreachable (Some ''How many rows in the users table?'') (session0 shop_up) =
     (Inl (OtherError ''Connection error.''),
      \<lparr>chat_history = [greeting, HumanMessage ''How many rows in the users table?''],
       screen = [(''user'', Markdown ''How many rows in the users table?'')],
       ext = shop_up\<lparr>served := 2\<rparr>\<rparr>)"
proof -
  have g: "get_schema_info (db unreachable) (ext (session0 shop_up)) =
      (Inr ''Tables: users (id, name)'', shop_up\<lparr>served := 2\<rparr>)"
    using shop_schema by (simp add: unreachable_def session0_def)
  have l: "generate_sql unreachable ''Tables: users (id, name)''
             ''How many rows in the users table?'' (shop_up\<lparr>served := 2\<rparr>) =
      (Inl (OtherError ''Connection error.''), shop_up\<lparr>served := 2\<rparr>)"
    by (rule generate_sql_Inl) (simp add: unreachable_def raise_def)
  have q: "''How many rows in the users table?'' \<noteq> []" by simp
  from on_user_query_steps [OF q g] show ?thesis
    by (simp add: bnd_def in_world_def l session0_def)
qed

lemma shop_run_after_failure:
  "on_user_query (answering ''`SELECT COUNT(*) FROM users;`'')
     (Some ''How many rows in the users table?'')
     (snd (on_user_query unreachable (Some ''How many rows in the users table?'')
             (session0 shop_up))) =
     (Inr (),
      \<lparr>chat_history = [greeting, HumanMessage ''How many rows in the users table?'',
         HumanMessage ''How many rows in the users table?'',
         AIMessage (results_text ''SELECT COUNT(*) FROM users;'')],
       screen = [(''user'', Markdown ''How many rows in the users table?''),
         (''user'', Markdown ''How many rows in the users table?''),
         (''assistant'', Markdown (results_text ''SELECT COUNT(*) FROM users;'')),
         (''assistant'', DataframeView ([[SInt 2]], [''COUNT(*)'']))],
       ext = shop_up\<lparr>served := 5\<rparr>\<rparr>)"
proof -
  let ?e = "answering ''`SELECT COUNT(*) FROM users;`''"
  let ?q = "''How many rows in the users table?''"
  let ?s = "\<lparr>chat_history = [greeting, HumanMessage ?q],
             screen = [(''user'', Markdown ?q)],
             ext = shop_up\<lparr>served := 2\<rparr>\<rparr> :: (shop, frame) session"
  let ?s1 = "\<lparr>chat_history = [greeting, HumanMessage ?q, HumanMessage ?q],
              screen = [(''user'', Markdown ?q), (''user'', Markdown ?q)],
              ext = shop_up\<lparr>served := 4\<rparr>\<rparr> :: (shop, frame) session"
  have q: "?q \<noteq> []" by simp
  have g: "get_schema_info (db ?e) (ext ?s) =
      (Inr ''Tables: users (id, name)'', shop_up\<lparr>served := 4\<rparr>)"
    using shop_schema_again by (simp add: answering_def)
  have x: "execute_query (db ?e) ''SELECT COUNT(*) FROM users;'' (ext ?s1) =
     (Inr (PyList [[SInt 2]], [''COUNT(*)'']), shop_up\<lparr>served := 5\<rparr>)"
    using shop_query_count_again by (simp add: answering_def)
  have d: "DataFrame ?e [[SInt 2]] [''COUNT(*)''] = Inr ([[SInt 2]], [''COUNT(*)''])"
    by (simp add: answering_def)
  have v: "st_dataframe ?e ([[SInt 2]], [''COUNT(*)'']) = Inr ()"
    by (simp add: answering_def frame_widget_def)
  from on_user_query_steps [OF q g] respond_rows [OF x _ d v] show ?thesis
    by (simp add: shop_run_unreachable bnd_def in_world_def answering_sql strip_fenced_count)
qed

lemma shop_run_orders:
  "on_user_query (answering ''SELECT * FROM orders;'') (Some ''How many orders are there?'')
     (session0 shop_up) =
     (Inr (),
      \<lparr>chat_history = [greeting, HumanMessage ''How many orders are there?'',
         AIMessage (error_text ''SELECT * FROM orders;''
                      ''1146 (42S02): Table 'shop.orders' doesn't exist'')],
       screen = [(''user'', Markdown ''How many orders are there?''),
         (''assistant'', ErrorBox (error_text ''SELECT * FROM orders;''
                      ''1146 (42S02): Table 'shop.orders' doesn't exist''))],
       ext = shop_up\<lparr>served := 3\<rparr>\<rparr>)"
proof -
  let ?e = "answering ''SELECT * FROM orders;''"
  have g: "get_schema_info (db ?e) (ext (session0 shop_up)) =
      (Inr ''Tables: users (id, name)'', shop_up\<lparr>served := 2\<rparr>)"
    using shop_schema by (simp add: answering_def session0_def)
  have x: "execute_query (db ?e) ''SELECT * FROM orders;'' (shop_up\<lparr>served := 2\<rparr>) =
     (Inr (PyStr ''1146 (42S02): Table 'shop.orders' doesn't exist'', []),
      shop_up\<lparr>served := 3\<rparr>)"
    using shop_query_orders by (simp add: answering_def)
  have q: "''How many orders are there?'' \<noteq> []" by simp
  let ?s1 = "\<lparr>chat_history = [greeting, HumanMessage ''How many orders are there?''],
              screen = [(''user'', Markdown ''How many orders are there?'')],
              ext = shop_up\<lparr>served := 2\<rparr>\<rparr> :: (shop, frame) session"
  have x1: "execute_query (db ?e) ''SELECT * FROM orders;'' (ext ?s1) =
     (Inr (PyStr ''1146 (42S02): Table 'shop.orders' doesn't exist'', []),
      shop_up\<lparr>served := 3\<rparr>)"
    using x by simp
  from on_user_query_steps [OF q g] respond_error [OF x1] show ?thesis
    by (simp add: bnd_def in_world_def answering_sql strip_plain_orders session0_def)
qed

lemma shop_run_nobody:
  "on_user_query (answering ''SELECT * FROM users WHERE id = 0;'') (Some ''Who has id 0?'')
     (session0 shop_up) =
     (Inr (),
      \<lparr>chat_history = [greeting, HumanMessage ''Who has id 0?'',
         AIMessage (no_results_text ''SELECT * FROM users WHERE id = 0;'')],
       screen = [(''user'', Markdown ''Who has id 0?''),
         (''assistant'', Markdown (no_results_text ''SELECT * FROM users WHERE id = 0;''))],
       ext = shop_up\<lparr>served := 3\<rparr>\<rparr>)"
proof -
  let ?e = "answering ''SELECT * FROM users WHERE id = 0;''"
  have g: "get_schema_info (db ?e) (ext (session0 shop_up)) =
      (Inr ''Tables: users (id, name)'', shop_up\<lparr>served := 2\<rparr>)"
    using shop_schema by (simp add: answering_def session0_def)
  have x: "execute_query (db ?e) ''SELECT * FROM users WHERE id = 0;'' (shop_up\<lparr>served := 2\<rparr>) =
     (Inr (PyList [], [''id'', ''name'']), shop_up\<lparr>served := 3\<rparr>)"
    using shop_query_nobody by (simp add: answering_def)
  have q: "''Who has id 0?'' \<noteq> []" by simp
  let ?s1 = "\<lparr>chat_history = [greeting, HumanMessage ''Who has id 0?''],
              screen = [(''user'', Markdown ''Who has id 0?'')],
              ext = shop_up\<lparr>served := 2\<rparr>\<rparr> :: (shop, frame) session"
  have x1: "execute_query (db ?e) ''SELECT * FROM users WHERE id = 0;'' (ext ?s1) =
     (Inr (PyList [], [''id'', ''name'']), shop_up\<lparr>served := 3\<rparr>)"
    using x by simp
  from on_user_query_steps [OF q g] respond_no_rows [OF x1] show ?thesis
    by (simp add: bnd_def in_world_def answering_sql strip_plain_nobody session0_def)
qed

lemma shop_answers_alike: "answers_alike same_shop shop_driver"
  by (auto simp: answers_alike_def alike_def same_outcome_def same_shop_def shop_driver_def
        shop_cursor_def shop_execute_def shop_fetchall_def shop_close_def
        split: sum.splits option.splits prod.splits)

section \<open>A translation that raises\<close>

text \<open>
  Claim C1 as stated fails. With a completion service that raises, the handler lets the
  exception escape, and the transcript holds the greeting and the question only: no
  AssistantTurn was appended.
\<close>

theorem translation_failure_counterexample:
  "on_user_query unreachable (Some ''How many rows in the users table?'') (session0 shop_up) =
     (Inl (OtherError ''Connection error.''),
      \<lparr>chat_history = [greeting, HumanMessage ''How many rows in the users table?''],
       screen = [(''user'', Markdown ''How many rows in the users table?'')],
       ext = shop_up\<lparr>served := 2\<rparr>\<rparr>)"
  by (rule shop_run_unreachable)

text \<open>
  Claim C1, amended. When the call of the chat model raises, the handler appends no
  AssistantTurn: the exception leaves the handler, and the session differs from the one
  before only by the appended UserTurn, the drawn question and the state the schema
  inspection and the failed call left.
\<close>

theorem translation_failure_escapes:
  assumes "q \<noteq> []"
    and "get_schema_info (db e) (ext s) = (Inr schema, w1)"
    and "llm e [HumanMessage (prompt_text schema q)] w1 = (Inl x, w2)"
  shows "on_user_query e (Some q) s =
           (Inl x, s\<lparr>chat_history := chat_history s @ [HumanMessage q],
                      screen := screen s @ [(''user'', Markdown q)],
                      ext := w2\<rparr>)"
  using generate_sql_Inl [OF assms(3)]
  by (simp add: on_user_query_steps [OF assms(1,2)] bnd_def in_world_def)

text \<open>
  The unreachable service on the example database.
\<close>

theorem translation_failure_escapes_witness:
  "on_user_query unreachable (Some ''Who has id 0?'') (session0 shop_up) =
     (Inl (OtherError ''Connection error.''),
      \<lparr>chat_history = [greeting, HumanMessage ''Who has id 0?''],
       screen = [(''user'', Markdown ''Who has id 0?'')],
       ext = shop_up\<lparr>served := 2\<rparr>\<rparr>)"
proof -
  have q: "''Who has id 0?'' \<noteq> []" by simp
  have g: "get_schema_info (db unreachable) (ext (session0 shop_up)) =
      (Inr ''Tables: users (id, name)'', shop_up\<lparr>served := 2\<rparr>)"
    using shop_schema by (simp add: unreachable_def session0_def)
  have l: "llm unreachable [HumanMessage (prompt_text ''Tables: users (id, name)'' ''Who has id 0?'')]
             (shop_up\<lparr>served := 2\<rparr>) =
      (Inl (OtherError ''Connection error.''), shop_up\<lparr>served := 2\<rparr>)"
    by (simp add: unreachable_def raise_def)
  from translation_failure_escapes [OF q g l]
  show ?thesis by (simp add: session0_def)
qed

section \<open>What generate_sql strips\<close>

text \<open>
  Claim C2 as stated fails. For a fenced answer of several lines the returned string
  ends with a line feed.
\<close>

theorem generate_sql_whitespace_counterexample:
  "generate_sql (answering (''```sql'' @ NL @ ''SELECT COUNT(*) FROM users;'' @ NL @ ''```''))
     ''Tables: users (id, name)'' ''How many rows in the users table?'' shop_up =
     (Inr (''sql'' @ NL @ ''SELECT COUNT(*) FROM users;'' @ NL), shop_up)
   \<and> ends_with_kind py_isspace (''sql'' @ NL @ ''SELECT COUNT(*) FROM users;'' @ NL)"
  by (simp add: answering_sql strip_def is_backtick_def py_isspace_def NL_def ends_with_kind_def)

text \<open>
  Claim C2, amended. When the chat model answers, the string that \<^verbatim>\<open>generate_sql\<close>
  returns has no backtick at either end; it has no whitespace at either end when the
  answer, stripped of whitespace, has no backtick at either end.
\<close>

theorem generate_sql_strips_backticks:
  assumes "llm e [HumanMessage (prompt_text schema_info query)] w = (Inr response, w')"
  shows "\<exists>sql. generate_sql e schema_info query w = (Inr sql, w')
       \<and> \<not> starts_with_kind is_backtick sql \<and> \<not> ends_with_kind is_backtick sql
       \<and> (\<not> starts_with_kind is_backtick (strip py_isspace (content response))
          \<and> \<not> ends_with_kind is_backtick (strip py_isspace (content response))
          \<longrightarrow> \<not> starts_with_kind py_isspace sql \<and> \<not> ends_with_kind py_isspace sql)"
proof -
  let ?c = "strip py_isspace (content response)"
  have "generate_sql e schema_info query w = (Inr (strip is_backtick ?c), w')"
    using assms by (rule generate_sql_Inr)
  moreover have "\<not> starts_with_kind is_backtick (strip is_backtick ?c)"
    by (rule strip_no_leading)
  moreover have "\<not> ends_with_kind is_backtick (strip is_backtick ?c)"
    by (rule strip_no_trailing)
  moreover have "\<not> starts_with_kind py_isspace (strip is_backtick ?c)
      \<and> \<not> ends_with_kind py_isspace (strip is_backtick ?c)"
    if "\<not> starts_with_kind is_backtick ?c" and "\<not> ends_with_kind is_backtick ?c"
    using strip_unchanged [OF that] strip_no_leading [of py_isspace "content response"]
      strip_no_trailing [of py_isspace "content response"]
    by simp
  ultimately show ?thesis by blast
qed

text \<open>
  The answer fenced by one backtick on each side.
\<close>

theorem generate_sql_strips_backticks_witness:
  "generate_sql (answering ''`SELECT COUNT(*) FROM users;`'') ''Tables: users (id, name)''
     ''How many rows in the users table?'' shop_up =
     (Inr ''SELECT COUNT(*) FROM users;'', shop_up)
   \<and> \<not> starts_with_kind is_backtick ''SELECT COUNT(*) FROM users;''
   \<and> \<not> ends_with_kind is_backtick ''SELECT COUNT(*) FROM users;''"
proof -
  let ?e = "answering ''`SELECT COUNT(*) FROM users;`''"
  have l: "llm ?e [HumanMessage (prompt_text ''Tables: users (id, name)''
                     ''How many rows in the users table?'')] shop_up =
      (Inr (AIMessage ''`SELECT COUNT(*) FROM users;`''), shop_up)"
    by (simp add: answering_def ret_def)
  have g: "generate_sql ?e ''Tables: users (id, name)''
     ''How many rows in the users table?'' shop_up =
     (Inr ''SELECT COUNT(*) FROM users;'', shop_up)"
    by (simp add: answering_sql strip_fenced_count)
  from generate_sql_strips_backticks [OF l] g
  show ?thesis by simp
qed

section \<open>execute_query does not raise\<close>

text \<open>
  Claim C3. For every SQL text, \<^verbatim>\<open>execute_query\<close> returns and does not raise. What
  it returns is either a list of rows with the column names or an error text with the
  empty list, never both. When a call of the driver raises (\<^verbatim>\<open>cursor()\<close>, the
  statement itself, \<^verbatim>\<open>fetchall()\<close> or \<^verbatim>\<open>close()\<close>), the result is the Failure whose
  message is the text of that error; when all four return, it is the Success with the
  fetched rows and the columns of the descriptor.
\<close>

theorem execute_query_never_raises:
  "(\<exists>r w'. execute_query drv query w = (Inr r, w')
      \<and> ((\<exists>rows columns. r = (PyList rows, columns)) \<noteq> (\<exists>msg. r = (PyStr msg, []))))
   \<and> (\<forall>x w'. query_call_fails drv query w x w' \<longrightarrow>
         execute_query drv query w = (Inr (PyStr (str_exn x), []), w'))
   \<and> (\<forall>u w1 v w2 rows w3 c w4.
         db_cursor drv w = (Inr u, w1) \<longrightarrow> cursor_execute drv query w1 = (Inr v, w2) \<longrightarrow>
         cursor_fetchall drv w2 = (Inr rows, w3) \<longrightarrow> cursor_close drv w3 = (Inr c, w4) \<longrightarrow>
         execute_query drv query w =
           (Inr (PyList rows,
                 case cursor_description drv w3 of None \<Rightarrow> [] | Some ds \<Rightarrow> map fst ds), w4))"
proof (intro conjI allI impI)
  show "\<exists>r w'. execute_query drv query w = (Inr r, w')
      \<and> ((\<exists>rows columns. r = (PyList rows, columns)) \<noteq> (\<exists>msg. r = (PyStr msg, [])))"
  proof (cases rule: query_calls_cases [of drv query w])
    case (Fails x w')
    then have "execute_query drv query w = (Inr (PyStr (str_exn x), []), w')"
      by (intro execute_query_Inl query_call_fails_raises)
    then show ?thesis by simp
  next
    case (Return u w1 v w2 rows w3 c w4)
    then have "execute_query drv query w =
        (Inr (PyList rows,
              case cursor_description drv w3 of None \<Rightarrow> [] | Some ds \<Rightarrow> map fst ds), w4)"
      by (intro execute_query_Inr query_try_returns)
    then show ?thesis by simp
  qed
next
  fix x w'
  assume "query_call_fails drv query w x w'"
  then show "execute_query drv query w = (Inr (PyStr (str_exn x), []), w')"
    by (intro execute_query_Inl query_call_fails_raises)
next
  fix u w1 v w2 rows w3 c w4
  assume "db_cursor drv w = (Inr u, w1)" "cursor_execute drv query w1 = (Inr v, w2)"
    "cursor_fetchall drv w2 = (Inr rows, w3)" "cursor_close drv w3 = (Inr c, w4)"
  then show "execute_query drv query w =
      (Inr (PyList rows,
            case cursor_description drv w3 of None \<Rightarrow> [] | Some ds \<Rightarrow> map fst ds), w4)"
    by (intro execute_query_Inr query_try_returns)
qed

text \<open>
  The four calls failing in turn (the connection down, a table that the database does
  not have, the connection lost while fetching, a cursor that cannot be closed), and
  the counting query, for which all four return.
\<close>

theorem execute_query_never_raises_witness:
  "execute_query shop_driver ''SELECT COUNT(*) FROM users;'' shop_down =
     (Inr (PyStr ''MySQL Connection not available.'', []), shop_down)
   \<and> execute_query shop_driver ''SELECT * FROM orders;'' shop_up =
     (Inr (PyStr ''1146 (42S02): Table 'shop.orders' doesn't exist'', []),
      shop_up\<lparr>served := 1\<rparr>)
   \<and> execute_query lossy_driver ''SELECT COUNT(*) FROM users;'' shop_up =
     (Inr (PyStr ''2013: Lost connection to MySQL server during query'', []),
      shop_up\<lparr>served := 1, pending := Some [[SInt 2]], pdesc := Some [(''COUNT(*)'', [])]\<rparr>)
   \<and> execute_query stuck_driver ''SELECT COUNT(*) FROM users;'' shop_up =
     (Inr (PyStr ''Unread result found'', []),
      shop_up\<lparr>served := 1, pdesc := Some [(''COUNT(*)'', [])]\<rparr>)
   \<and> execute_query shop_driver ''SELECT COUNT(*) FROM users;'' shop_up =
     (Inr (PyList [[SInt 2]], [''COUNT(*)'']), shop_up\<lparr>served := 1\<rparr>)"
proof (intro conjI)
  let ?q = "''SELECT COUNT(*) FROM users;''"
  let ?w2 = "shop_up\<lparr>served := 1, pending := Some [[SInt 2]], pdesc := Some [(''COUNT(*)'', [])]\<rparr>"
  let ?w3 = "shop_up\<lparr>served := 1, pdesc := Some [(''COUNT(*)'', [])]\<rparr>"
  have down: "query_call_fails shop_driver ?q shop_down
      (OtherError ''MySQL Connection not available.'') shop_down"
    by (rule query_cursor_raises) (simp add: shop_defs)
  from execute_query_never_raises [of shop_driver ?q shop_down] down
  show "execute_query shop_driver ?q shop_down =
     (Inr (PyStr ''MySQL Connection not available.'', []), shop_down)"
    by simp
  have missing: "query_call_fails shop_driver ''SELECT * FROM orders;'' shop_up
      (OtherError ''1146 (42S02): Table 'shop.orders' doesn't exist'') (shop_up\<lparr>served := 1\<rparr>)"
    by (rule query_execute_raises [where ?w1.0 = shop_up and u = "()"])
       (simp_all add: shop_defs)
  from execute_query_never_raises [of shop_driver "''SELECT * FROM orders;''" shop_up] missing
  show "execute_query shop_driver ''SELECT * FROM orders;'' shop_up =
     (Inr (PyStr ''1146 (42S02): Table 'shop.orders' doesn't exist'', []),
      shop_up\<lparr>served := 1\<rparr>)"
    by simp
  have lost: "query_call_fails lossy_driver ?q shop_up
      (OtherError ''2013: Lost connection to MySQL server during query'') ?w2"
    by (rule query_fetch_raises [where ?w1.0 = shop_up and u = "()" and ?w2.0 = ?w2 and v = "()"])
       (simp_all add: lossy_driver_def shop_defs)
  from execute_query_never_raises [of lossy_driver ?q shop_up] lost
  show "execute_query lossy_driver ?q shop_up =
     (Inr (PyStr ''2013: Lost connection to MySQL server during query'', []), ?w2)"
    by simp
  have stuck: "query_call_fails stuck_driver ?q shop_up (OtherError ''Unread result found'') ?w3"
    by (rule query_close_raises [where ?w1.0 = shop_up and u = "()" and ?w2.0 = ?w2 and v = "()"
          and ?w3.0 = ?w3 and rows = "[[SInt 2]]"])
       (simp_all add: stuck_driver_def shop_defs)
  from execute_query_never_raises [of stuck_driver ?q shop_up] stuck
  show "execute_query stuck_driver ?q shop_up = (Inr (PyStr ''Unread result found'', []), ?w3)"
    by simp
  have c: "db_cursor shop_driver shop_up = (Inr (), shop_up)"
    and x: "cursor_execute shop_driver ?q shop_up = (Inr (), ?w2)"
    and f: "cursor_fetchall shop_driver ?w2 = (Inr [[SInt 2]], ?w3)"
    and cl: "cursor_close shop_driver ?w3 = (Inr (), shop_up\<lparr>served := 1\<rparr>)"
    and d: "cursor_description shop_driver ?w3 = Some [(''COUNT(*)'', [])]"
    by (simp_all add: shop_defs)
  from execute_query_never_raises [of shop_driver ?q shop_up] c x f cl d
  show "execute_query shop_driver ?q shop_up =
     (Inr (PyList [[SInt 2]], [''COUNT(*)'']), shop_up\<lparr>served := 1\<rparr>)"
    by simp
qed

section \<open>The turn after a failed execution\<close>

text \<open>
  Claim C4 as stated fails. The query on the missing table returns an error text, and
  the last entry of the transcript is not the text of the claim and does not contain
  \<^verbatim>\<open>Error:\<close>.
\<close>

theorem plain_error_text_counterexample:
  "execute_query shop_driver ''SELECT * FROM orders;'' (shop_up\<lparr>served := 2\<rparr>) =
     (Inr (PyStr ''1146 (42S02): Table 'shop.orders' doesn't exist'', []),
      shop_up\<lparr>served := 3\<rparr>)
   \<and> last (chat_history (snd (on_user_query (answering ''SELECT * FROM orders;'')
              (Some ''How many orders are there?'') (session0 shop_up))))
       \<noteq> AIMessage (''Generated SQL: SELECT * FROM orders;'' @ NL @ NL
            @ ''Error: 1146 (42S02): Table 'shop.orders' doesn't exist'')
   \<and> \<not> contains ''Error:''
         (content (last (chat_history (snd (on_user_query (answering ''SELECT * FROM orders;'')
              (Some ''How many orders are there?'') (session0 shop_up))))))"
  by (simp add: shop_run_orders shop_query_orders error_text_def NL_def)

text \<open>
  Claim C4, amended. When the execution returns an error text, the handler appends,
  after the UserTurn, one AssistantTurn whose text is
  \<^verbatim>\<open>**Generated SQL**: `<sql>`\<close>, an empty line, and \<^verbatim>\<open>**Error**: <message>\<close>;
  the last entry of the transcript contains \<^verbatim>\<open>**Error**:\<close>.
\<close>

theorem failure_turn_markdown_text:
  assumes "q \<noteq> []"
    and "get_schema_info (db e) (ext s) = (Inr schema, w1)"
    and "generate_sql e schema q w1 = (Inr sql, w2)"
    and "execute_query (db e) sql w2 = (Inr (PyStr msg, cols), w3)"
  shows "on_user_query e (Some q) s =
           (Inr (), s\<lparr>chat_history := chat_history s @
                        [HumanMessage q,
                         AIMessage (''**Generated SQL**: `'' @ sql @ ''`'' @ NL @ NL
                                    @ ''**Error**: '' @ msg)],
                      screen := screen s @
                        [(''user'', Markdown q),
                         (''assistant'', ErrorBox (''**Generated SQL**: `'' @ sql @ ''`'' @ NL @ NL
                                    @ ''**Error**: '' @ msg))],
                      ext := w3\<rparr>)
       \<and> contains ''**Error**:''
           (content (last (chat_history (snd (on_user_query e (Some q) s)))))"
proof -
  let ?s1 = "s\<lparr>chat_history := chat_history s @ [HumanMessage q],
               screen := screen s @ [(''user'', Markdown q)], ext := w2\<rparr>"
  have x: "execute_query (db e) sql (ext ?s1) = (Inr (PyStr msg, cols), w3)"
    using assms(4) by simp
  have run: "on_user_query e (Some q) s =
           (Inr (), s\<lparr>chat_history := chat_history s @
                        [HumanMessage q, AIMessage (error_text sql msg)],
                      screen := screen s @
                        [(''user'', Markdown q), (''assistant'', ErrorBox (error_text sql msg))],
                      ext := w3\<rparr>)"
    by (simp add: on_user_query_steps [OF assms(1,2)] bnd_def in_world_def assms(3)
          respond_error [OF x])
  have "contains ''**Error**:'' (error_text sql msg)"
    using contains_append [of "''**Error**:''" "''**Generated SQL**: `'' @ sql @ ''`'' @ NL @ NL" "'' '' @ msg"]
    by (simp add: error_text_def)
  with run show ?thesis by (simp add: error_text_def)
qed

text \<open>
  The query on the missing table.
\<close>

theorem failure_turn_markdown_text_witness:
  "on_user_query (answering ''SELECT * FROM orders;'') (Some ''How many orders are there?'')
     (session0 shop_up) =
     (Inr (),
      \<lparr>chat_history = [greeting, HumanMessage ''How many orders are there?'',
         AIMessage (''**Generated SQL**: `SELECT * FROM orders;`'' @ NL @ NL
            @ ''**Error**: 1146 (42S02): Table 'shop.orders' doesn't exist'')],
       screen = [(''user'', Markdown ''How many orders are there?''),
         (''assistant'', ErrorBox (''**Generated SQL**: `SELECT * FROM orders;`'' @ NL @ NL
            @ ''**Error**: 1146 (42S02): Table 'shop.orders' doesn't exist''))],
       ext = shop_up\<lparr>served := 3\<rparr>\<rparr>)"
proof -
  let ?e = "answering ''SELECT * FROM orders;''"
  have q: "''How many orders are there?'' \<noteq> []" by simp
  have g: "get_schema_info (db ?e) (ext (session0 shop_up)) =
      (Inr ''Tables: users (id, name)'', shop_up\<lparr>served := 2\<rparr>)"
    using shop_schema by (simp add: answering_def session0_def)
  have t: "generate_sql ?e ''Tables: users (id, name)'' ''How many orders are there?''
             (shop_up\<lparr>served := 2\<rparr>) = (Inr ''SELECT * FROM orders;'', shop_up\<lparr>served := 2\<rparr>)"
    by (simp add: answering_sql strip_plain_orders)
  have x: "execute_query (db ?e) ''SELECT * FROM orders;'' (shop_up\<lparr>served := 2\<rparr>) =
     (Inr (PyStr ''1146 (42S02): Table 'shop.orders' doesn't exist'', []),
      shop_up\<lparr>served := 3\<rparr>)"
    using shop_query_orders by (simp add: answering_def)
  from failure_turn_markdown_text [OF q g t x]
  show ?thesis by (simp add: session0_def)
qed

section \<open>get_schema_info on a database that answers\<close>

lemma describe_tables_ok:
  assumes "first_items tables = Inr (map (\<lambda>tc. SStr (fst tc)) sd)"
    and "describe_calls_ok drv sd w = Some w'"
  shows "describe_tables drv tables acc w = (Inr (acc @ map render_table sd), w')"
  using assms
proof (induction sd arbitrary: tables acc w)
  case Nil
  then have "tables = []" by (simp add: first_items_Nil)
  with Nil show ?case by (simp add: ret_def)
next
  case (Cons tc sd)
  from Cons.prems(1) obtain r rs where
    tables: "tables = (SStr (fst tc) # r) # rs"
    and rest: "first_items rs = Inr (map (\<lambda>tc. SStr (fst tc)) sd)"
    by (auto elim: first_items_Cons)
  from Cons.prems(2) obtain u w1 cols w2 where
    x: "cursor_execute drv (''DESCRIBE '' @ fst tc) w = (Inr u, w1)"
    and f: "cursor_fetchall drv w1 = (Inr cols, w2)"
    and c: "first_items cols = Inr (map SStr (snd tc))"
    and d: "describe_calls_ok drv sd w2 = Some w'"
    by (auto split: prod.splits sum.splits if_splits)
  have "describe_tables drv tables acc w =
          describe_tables drv rs (acc @ [render_table tc]) w2"
    by (simp add: tables bnd_def pure_def x [simplified] f c str_join_strs render_table_def)
  also have "\<dots> = (Inr ((acc @ [render_table tc]) @ map render_table sd), w')"
    using rest d by (rule Cons.IH)
  finally show ?case by simp
qed

text \<open>
  Claim C5. When the metadata calls succeed and report the tables and columns \<open>sd\<close>,
  \<^verbatim>\<open>get_schema_info\<close> returns \<^verbatim>\<open>Tables: t1 (c1, c2, ...), t2 (c1, ...), ...\<close> over
  them, in the reported order; for the single table \<open>users(id, name)\<close> this is
  \<^verbatim>\<open>Tables: users (id, name)\<close>.
\<close>

theorem get_schema_info_renders:
  assumes "metadata_calls_ok drv sd w = Some w'"
  shows "get_schema_info drv w = (Inr (render_schema sd), w')
       \<and> (sd = [(''users'', [''id'', ''name''])] \<longrightarrow>
            get_schema_info drv w = (Inr ''Tables: users (id, name)'', w'))"
proof -
  from assms obtain u w1 v w2 tables w3 w4 c where
    calls: "db_cursor drv w = (Inr u, w1)" "cursor_execute drv ''SHOW TABLES'' w1 = (Inr v, w2)"
      "cursor_fetchall drv w2 = (Inr tables, w3)"
      "first_items tables = Inr (map (\<lambda>tc. SStr (fst tc)) sd)"
      "describe_calls_ok drv sd w3 = Some w4" "cursor_close drv w4 = (Inr c, w')"
    unfolding metadata_calls_ok_def
    by (auto split: prod.splits sum.splits if_splits option.splits)
  from describe_tables_ok [OF calls(4,5), of "[]"]
  have "describe_tables drv tables [] w3 = (Inr (map render_table sd), w4)"
    by simp
  with calls have "schema_try drv w = (Inr (render_schema sd), w')"
    by (simp add: schema_try_def bnd_def ret_def render_schema_def)
  then have g: "get_schema_info drv w = (Inr (render_schema sd), w')"
    by (rule get_schema_info_Inr)
  have "render_schema [(''users'', [''id'', ''name''])] = ''Tables: users (id, name)''"
    by (simp add: render_schema_def render_table_def)
  with g show ?thesis by auto
qed

text \<open>
  The example database reports \<open>users(id, name)\<close>.
\<close>

theorem get_schema_info_renders_witness:
  "metadata_calls_ok shop_driver [(''users'', [''id'', ''name''])] shop_up
     = Some (shop_up\<lparr>served := 2\<rparr>)
   \<and> get_schema_info shop_driver shop_up =
       (Inr ''Tables: users (id, name)'', shop_up\<lparr>served := 2\<rparr>)"
proof -
  have m: "metadata_calls_ok shop_driver [(''users'', [''id'', ''name''])] shop_up
     = Some (shop_up\<lparr>served := 2\<rparr>)"
    by (simp add: metadata_calls_ok_def shop_defs)
  from get_schema_info_renders [OF m]
  have "get_schema_info shop_driver shop_up =
       (Inr ''Tables: users (id, name)'', shop_up\<lparr>served := 2\<rparr>)"
    by blast
  with m show ?thesis by simp
qed

section \<open>The turn after an execution without rows\<close>

text \<open>
  Claim C6 as stated fails. The query that matches no row succeeds, and the last entry
  of the transcript is not the text of the claim.
\<close>

theorem plain_no_results_text_counterexample:
  "execute_query shop_driver ''SELECT * FROM users WHERE id = 0;'' (shop_up\<lparr>served := 2\<rparr>) =
     (Inr (PyList [], [''id'', ''name'']), shop_up\<lparr>served := 3\<rparr>)
   \<and> last (chat_history (snd (on_user_query (answering ''SELECT * FROM users WHERE id = 0;'')
              (Some ''Who has id 0?'') (session0 shop_up))))
       \<noteq> AIMessage (''Generated SQL: SELECT * FROM users WHERE id = 0;'' @ NL @ NL
            @ ''No results found.'')"
  by (simp add: shop_run_nobody shop_query_nobody no_results_text_def NL_def)

text \<open>
  Claim C6, amended. When the execution succeeds with no rows, the handler appends,
  after the UserTurn, one AssistantTurn whose text is
  \<^verbatim>\<open>**Generated SQL**: `<sql>`\<close>, an empty line, and \<^verbatim>\<open>No results found.\<close>; it
  ends in \<^verbatim>\<open>No results found.\<close>, and the page gets the two texts and no table.
\<close>

theorem no_rows_turn_markdown_text:
  assumes "q \<noteq> []"
    and "get_schema_info (db e) (ext s) = (Inr schema, w1)"
    and "generate_sql e schema q w1 = (Inr sql, w2)"
    and "execute_query (db e) sql w2 = (Inr (PyList [], cols), w3)"
  shows "on_user_query e (Some q) s =
           (Inr (), s\<lparr>chat_history := chat_history s @
                        [HumanMessage q,
                         AIMessage (''**Generated SQL**: `'' @ sql @ ''`'' @ NL @ NL
                                    @ ''No results found.'')],
                      screen := screen s @
                        [(''user'', Markdown q),
                         (''assistant'', Markdown (''**Generated SQL**: `'' @ sql @ ''`'' @ NL @ NL
                                    @ ''No results found.''))],
                      ext := w3\<rparr>)
       \<and> ends_with ''No results found.''
           (content (last (chat_history (snd (on_user_query e (Some q) s)))))"
proof -
  let ?s1 = "s\<lparr>chat_history := chat_history s @ [HumanMessage q],
               screen := screen s @ [(''user'', Markdown q)], ext := w2\<rparr>"
  have x: "execute_query (db e) sql (ext ?s1) = (Inr (PyList [], cols), w3)"
    using assms(4) by simp
  have run: "on_user_query e (Some q) s =
           (Inr (), s\<lparr>chat_history := chat_history s @
                        [HumanMessage q, AIMessage (no_results_text sql)],
                      screen := screen s @
                        [(''user'', Markdown q), (''assistant'', Markdown (no_results_text sql))],
                      ext := w3\<rparr>)"
    by (simp add: on_user_query_steps [OF assms(1,2)] bnd_def in_world_def assms(3)
          respond_no_rows [OF x])
  have "ends_with ''No results found.'' (no_results_text sql)"
    using ends_with_append [of "''No results found.''" "''**Generated SQL**: `'' @ sql @ ''`'' @ NL @ NL"]
    by (simp add: no_results_text_def)
  with run show ?thesis by (simp add: no_results_text_def)
qed

text \<open>
  The query that matches no row.
\<close>

theorem no_rows_turn_markdown_text_witness:
  "on_user_query (answering ''SELECT * FROM users WHERE id = 0;'') (Some ''Who has id 0?'')
     (session0 shop_up) =
     (Inr (),
      \<lparr>chat_history = [greeting, HumanMessage ''Who has id 0?'',
         AIMessage (''**Generated SQL**: `SELECT * FROM users WHERE id = 0;`'' @ NL @ NL
            @ ''No results found.'')],
       screen = [(''user'', Markdown ''Who has id 0?''),
         (''assistant'', Markdown (''**Generated SQL**: `SELECT * FROM users WHERE id = 0;`''
            @ NL @ NL @ ''No results found.''))],
       ext = shop_up\<lparr>served := 3\<rparr>\<rparr>)"
proof -
  let ?e = "answering ''SELECT * FROM users WHERE id = 0;''"
  have q: "''Who has id 0?'' \<noteq> []" by simp
  have g: "get_schema_info (db ?e) (ext (session0 shop_up)) =
      (Inr ''Tables: users (id, name)'', shop_up\<lparr>served := 2\<rparr>)"
    using shop_schema by (simp add: answering_def session0_def)
  have t: "generate_sql ?e ''Tables: users (id, name)'' ''Who has id 0?''
             (shop_up\<lparr>served := 2\<rparr>) =
           (Inr ''SELECT * FROM users WHERE id = 0;'', shop_up\<lparr>served := 2\<rparr>)"
    by (simp add: answering_sql strip_plain_nobody)
  have x: "execute_query (db ?e) ''SELECT * FROM users WHERE id = 0;'' (shop_up\<lparr>served := 2\<rparr>) =
     (Inr (PyList [], [''id'', ''name'']), shop_up\<lparr>served := 3\<rparr>)"
    using shop_query_nobody by (simp add: answering_def)
  from no_rows_turn_markdown_text [OF q g t x]
  show ?thesis by (simp add: session0_def)
qed

section \<open>A schema inspection that fails\<close>

text \<open>
  Claim C7. When a metadata call of \<^verbatim>\<open>get_schema_info\<close> fails (\<^verbatim>\<open>cursor()\<close>,
  \<^verbatim>\<open>SHOW TABLES\<close>, a \<^verbatim>\<open>DESCRIBE\<close> of any table, one of the fetches, or \<^verbatim>\<open>close()\<close>),
  the function does not raise: it returns the text of the error in place of the schema.
  The handler goes on with that text as the schema: the chat model is called with the
  prompt built from it, and the handler ends as that call and the execution of its
  answer end.
\<close>

theorem schema_failure_passed_downstream:
  assumes "metadata_call_fails (db e) (ext s) x w'" and "q \<noteq> []"
  shows "get_schema_info (db e) (ext s) = (Inr (str_exn x), w')
       \<and> on_user_query e (Some q) s =
           (case llm e [HumanMessage (prompt_text (str_exn x) q)] w' of
              (Inl y, w2) \<Rightarrow>
                (Inl y, s\<lparr>chat_history := chat_history s @ [HumanMessage q],
                           screen := screen s @ [(''user'', Markdown q)],
                           ext := w2\<rparr>)
            | (Inr response, w2) \<Rightarrow>
                respond e (strip is_backtick (strip py_isspace (content response)))
                  (s\<lparr>chat_history := chat_history s @ [HumanMessage q],
                     screen := screen s @ [(''user'', Markdown q)],
                     ext := w2\<rparr>))"
proof -
  have g: "get_schema_info (db e) (ext s) = (Inr (str_exn x), w')"
    using assms(1) by (intro get_schema_info_Inl metadata_call_fails_raises)
  show ?thesis
  proof (cases rule: py_cases [of "llm e [HumanMessage (prompt_text (str_exn x) q)]" w'])
    case (Raises y w2)
    from on_user_query_steps [OF assms(2) g] generate_sql_Inl [OF Raises] Raises g
    show ?thesis by (simp add: bnd_def in_world_def)
  next
    case (Returns response w2)
    from on_user_query_steps [OF assms(2) g] generate_sql_Inr [OF Returns] Returns g
    show ?thesis by (simp add: bnd_def in_world_def)
  qed
qed

text \<open>
  The database with the table \<open>secrets\<close>: the first table is described, the
  \<^verbatim>\<open>DESCRIBE\<close> of the second is denied, and the text of the denial is what the
  function returns. The same with the connection down, where \<^verbatim>\<open>cursor()\<close> raises.
\<close>

theorem schema_failure_passed_downstream_witness:
  "get_schema_info vault_driver shop_up =
     (Inr ''1142 (42000): SELECT command denied to user for table secrets'',
      shop_up\<lparr>served := 3,
              pdesc := Some [(''Field'', []), (''Type'', []), (''Null'', []), (''Key'', []),
                             (''Default'', []), (''Extra'', [])]\<rparr>)
   \<and> get_schema_info shop_driver shop_down =
     (Inr ''MySQL Connection not available.'', shop_down)"
proof
  let ?e = "(answering [])\<lparr>db := vault_driver\<rparr>"
  let ?x = "OtherError ''1142 (42000): SELECT command denied to user for table secrets''"
  let ?t = "[[SStr ''users''], [SStr ''secrets'']]"
  let ?td = "Some [(''Tables_in_shop'', [])] :: col_desc list option"
  let ?u = "[[SStr ''id'', SStr ''int'', SStr ''NO'', SStr ''PRI'', SNull, SStr []],
             [SStr ''name'', SStr ''varchar(64)'', SStr ''YES'', SStr [], SNull, SStr []]]"
  let ?d = "Some [(''Field'', []), (''Type'', []), (''Null'', []), (''Key'', []),
                  (''Default'', []), (''Extra'', [])] :: col_desc list option"
  let ?w2 = "shop_up\<lparr>served := 1, pending := Some ?t, pdesc := ?td\<rparr>"
  let ?w3 = "shop_up\<lparr>served := 1, pdesc := ?td\<rparr>"
  let ?w4 = "shop_up\<lparr>served := 2, pending := Some ?u, pdesc := ?d\<rparr>"
  let ?w5 = "shop_up\<lparr>served := 2, pdesc := ?d\<rparr>"
  let ?w6 = "shop_up\<lparr>served := 3, pdesc := ?d\<rparr>"
  have c: "db_cursor vault_driver shop_up = (Inr (), shop_up)"
    by (simp add: vault_driver_def shop_defs)
  have st: "cursor_execute vault_driver ''SHOW TABLES'' shop_up = (Inr (), ?w2)"
    by (simp add: vault_driver_def vault_execute_def vault_answer_def shop_defs)
  have ft: "cursor_fetchall vault_driver ?w2 = (Inr ?t, ?w3)"
    by (simp add: vault_driver_def shop_defs)
  have du: "cursor_execute vault_driver (''DESCRIBE '' @ py_format (SStr ''users'')) ?w3 =
      (Inr (), ?w4)"
    by (simp add: vault_driver_def vault_execute_def vault_answer_def shop_defs)
  have fu: "cursor_fetchall vault_driver ?w4 = (Inr ?u, ?w5)"
    by (simp add: vault_driver_def shop_defs)
  have fi: "first_items ?u = Inr [SStr ''id'', SStr ''name'']"
    by simp
  have sj: "str_join '', '' [SStr ''id'', SStr ''name''] = Inr ''id, name''"
    by (simp add: str_join_def)
  have ds: "cursor_execute vault_driver (''DESCRIBE '' @ py_format (SStr ''secrets'')) ?w5 =
      (Inl ?x, ?w6)"
    by (simp add: vault_driver_def vault_execute_def vault_answer_def shop_defs)
  have "describe_call_fails vault_driver ?t ?w3 ?x ?w6"
    by (rule later_table [OF du fu fi sj describe_raises [OF ds]])
  then have "metadata_call_fails vault_driver shop_up ?x ?w6"
    by (rule table_call_raises [OF c st ft])
  then have fails: "metadata_call_fails (db ?e) (ext (session0 shop_up)) ?x ?w6"
    by (simp add: session0_def)
  have q: "''How many users?'' \<noteq> []" by simp
  from schema_failure_passed_downstream [OF fails q]
  show "get_schema_info vault_driver shop_up =
     (Inr ''1142 (42000): SELECT command denied to user for table secrets'', ?w6)"
    by (simp add: session0_def)
next
  let ?e = "answering [] :: (shop, frame) env"
  have "metadata_call_fails shop_driver shop_down
      (OtherError ''MySQL Connection not available.'') shop_down"
    by (rule cursor_raises) (simp add: shop_defs)
  then have fails: "metadata_call_fails (db ?e) (ext (session0 shop_down))
      (OtherError ''MySQL Connection not available.'') shop_down"
    by (simp add: answering_def session0_def)
  have q: "''How many users?'' \<noteq> []" by simp
  from schema_failure_passed_downstream [OF fails q]
  show "get_schema_info shop_driver shop_down =
     (Inr ''MySQL Connection not available.'', shop_down)"
    by (simp add: answering_def session0_def)
qed

section \<open>Schema inspection twice\<close>

lemma alike_ret: "alike R (ret x)"
  by (simp add: alike_def same_outcome_def ret_def)

lemma alike_pure: "alike R (pure r)"
  by (simp add: alike_def same_outcome_def pure_def)

lemma alike_bnd:
  assumes "alike R m" and "\<And>x. alike R (f x)"
  shows "alike R (bnd m f)"
  unfolding alike_def
proof (intro allI impI)
  fix w v
  assume "R w v"
  with assms(1) have m: "fst (m w) = fst (m v)" "R (snd (m w)) (snd (m v))"
    by (simp_all add: alike_def same_outcome_def)
  show "same_outcome R (bnd m f w) (bnd m f v)"
  proof (cases "fst (m w)")
    case (Inl x)
    with m show ?thesis
      by (cases "m w"; cases "m v") (auto simp: same_outcome_def bnd_def)
  next
    case (Inr y)
    from assms(2) [of y] m(2)
    have "same_outcome R (f y (snd (m w))) (f y (snd (m v)))"
      by (simp add: alike_def)
    with Inr m show ?thesis
      by (cases "m w"; cases "m v") (auto simp: bnd_def)
  qed
qed

lemma alike_try_except:
  assumes "alike R m" and "\<And>x. alike R (h x)"
  shows "alike R (try_except m h)"
  unfolding alike_def
proof (intro allI impI)
  fix w v
  assume "R w v"
  with assms(1) have m: "fst (m w) = fst (m v)" "R (snd (m w)) (snd (m v))"
    by (simp_all add: alike_def same_outcome_def)
  show "same_outcome R (try_except m h w) (try_except m h v)"
  proof (cases "fst (m w)")
    case (Inl x)
    from assms(2) [of x] m(2)
    have "same_outcome R (h x (snd (m w))) (h x (snd (m v)))"
      by (simp add: alike_def)
    with Inl m show ?thesis
      by (cases "m w"; cases "m v") (auto simp: try_except_def)
  next
    case (Inr y)
    with m show ?thesis
      by (cases "m w"; cases "m v") (auto simp: same_outcome_def try_except_def)
  qed
qed

lemma alike_describe_tables:
  assumes "answers_alike R drv"
  shows "alike R (describe_tables drv tables acc)"
proof (induction tables arbitrary: acc)
  case Nil
  show ?case by (simp add: alike_ret)
next
  case (Cons table tables)
  from assms have x: "alike R (cursor_execute drv q)" for q
    by (simp add: answers_alike_def)
  from assms have f: "alike R (cursor_fetchall drv)"
    by (simp add: answers_alike_def)
  show ?case
    by simp (intro alike_bnd alike_pure x f Cons.IH)
qed

lemma alike_get_schema_info:
  assumes "answers_alike R drv"
  shows "alike R (get_schema_info drv)"
proof -
  from assms have c: "alike R (db_cursor drv)" and x: "alike R (cursor_execute drv q)"
    and f: "alike R (cursor_fetchall drv)" and cl: "alike R (cursor_close drv)" for q
    by (simp_all add: answers_alike_def)
  have "alike R (schema_try drv)"
    unfolding schema_try_def
    by (intro alike_bnd alike_ret c x f cl alike_describe_tables assms)
  then show ?thesis
    unfolding get_schema_info_def by (intro alike_try_except alike_ret)
qed

text \<open>
  Claim C8. Two calls of \<^verbatim>\<open>get_schema_info\<close> in a row, the database after the first
  call being the same as before it, return the same text.
\<close>

theorem get_schema_info_idempotent:
  assumes "answers_alike R drv"
    and "get_schema_info drv w = (t1, w1)"
    and "R w w1"
    and "get_schema_info drv w1 = (t2, w2)"
  shows "t1 = t2"
proof -
  from alike_get_schema_info [OF assms(1)] assms(3)
  have "same_outcome R (get_schema_info drv w) (get_schema_info drv w1)"
    by (simp add: alike_def)
  with assms(2,4) show ?thesis by (simp add: same_outcome_def)
qed

text \<open>
  The example database: the first call changes the count of statements served, and
  nothing that the driver's answers depend on.
\<close>

theorem get_schema_info_idempotent_witness:
  "same_shop shop_up (shop_up\<lparr>served := 2\<rparr>)
   \<and> shop_up \<noteq> shop_up\<lparr>served := 2\<rparr>
   \<and> get_schema_info shop_driver shop_up =
       (Inr ''Tables: users (id, name)'', shop_up\<lparr>served := 2\<rparr>)
   \<and> fst (get_schema_info shop_driver (shop_up\<lparr>served := 2\<rparr>)) =
       Inr ''Tables: users (id, name)''"
proof -
  have r: "same_shop shop_up (shop_up\<lparr>served := 2\<rparr>)"
    by (simp add: same_shop_def shop_up_def)
  have again: "get_schema_info shop_driver (shop_up\<lparr>served := 2\<rparr>) =
      (fst (get_schema_info shop_driver (shop_up\<lparr>served := 2\<rparr>)),
       snd (get_schema_info shop_driver (shop_up\<lparr>served := 2\<rparr>)))"
    by simp
  from get_schema_info_idempotent [OF shop_answers_alike shop_schema r again]
  have "fst (get_schema_info shop_driver (shop_up\<lparr>served := 2\<rparr>)) =
      Inr ''Tables: users (id, name)''"
    by simp
  moreover have "shop_up \<noteq> shop_up\<lparr>served := 2\<rparr>"
    by (simp add: shop_up_def)
  ultimately show ?thesis
    using r shop_schema by simp
qed

section \<open>The columns of a result\<close>

text \<open>
  Claim C9. When the statement runs and the rows are fetched, \<^verbatim>\<open>execute_query\<close>
  returns the fetched rows; the column list is empty when the cursor has no descriptor,
  and otherwise holds the names of the descriptor, in order.
\<close>

theorem execute_query_columns:
  assumes "db_cursor drv w = (Inr u, w1)"
    and "cursor_execute drv query w1 = (Inr v, w2)"
    and "cursor_fetchall drv w2 = (Inr rows, w3)"
    and "cursor_close drv w3 = (Inr c, w4)"
  shows "execute_query drv query w =
           (Inr (PyList rows,
                 case cursor_description drv w3 of None \<Rightarrow> [] | Some ds \<Rightarrow> map fst ds), w4)"
proof -
  have "column_names d = (case d of None \<Rightarrow> [] | Some ds \<Rightarrow> map fst ds)" for d :: "col_desc list option"
    by (simp add: column_names_def split: option.splits)
  then have "query_try drv query w =
      (Inr (PyList rows, case cursor_description drv w3 of None \<Rightarrow> [] | Some ds \<Rightarrow> map fst ds), w4)"
    using assms by (simp add: query_try_def bnd_def ret_def)
  then show ?thesis by (rule execute_query_Inr)
qed

text \<open>
  The statement without a result set and the counting query of the example database.
\<close>

theorem execute_query_columns_witness:
  "execute_query shop_driver ''DELETE FROM users WHERE id = 0;'' shop_up =
     (Inr (PyList [], []), shop_up\<lparr>served := 1\<rparr>)
   \<and> execute_query shop_driver ''SELECT COUNT(*) FROM users;'' shop_up =
     (Inr (PyList [[SInt 2]], [''COUNT(*)'']), shop_up\<lparr>served := 1\<rparr>)"
proof
  have c: "db_cursor shop_driver shop_up = (Inr (), shop_up)"
    by (simp add: shop_defs)
  have x: "cursor_execute shop_driver ''DELETE FROM users WHERE id = 0;'' shop_up =
      (Inr (), shop_up\<lparr>served := 1, pending := Some []\<rparr>)"
    by (simp add: shop_defs)
  have f: "cursor_fetchall shop_driver (shop_up\<lparr>served := 1, pending := Some []\<rparr>) =
      (Inr [], shop_up\<lparr>served := 1\<rparr>)"
    by (simp add: shop_defs)
  have cl: "cursor_close shop_driver (shop_up\<lparr>served := 1\<rparr>) = (Inr (), shop_up\<lparr>served := 1\<rparr>)"
    by (simp add: shop_defs)
  have d: "cursor_description shop_driver (shop_up\<lparr>served := 1\<rparr>) = None"
    by (simp add: shop_defs)
  from execute_query_columns [OF c x f cl] d
  show "execute_query shop_driver ''DELETE FROM users WHERE id = 0;'' shop_up =
     (Inr (PyList [], []), shop_up\<lparr>served := 1\<rparr>)"
    by simp
next
  have c: "db_cursor shop_driver shop_up = (Inr (), shop_up)"
    by (simp add: shop_defs)
  have x: "cursor_execute shop_driver ''SELECT COUNT(*) FROM users;'' shop_up =
      (Inr (), shop_up\<lparr>served := 1, pending := Some [[SInt 2]],
                       pdesc := Some [(''COUNT(*)'', [])]\<rparr>)"
    by (simp add: shop_defs)
  have f: "cursor_fetchall shop_driver
             (shop_up\<lparr>served := 1, pending := Some [[SInt 2]], pdesc := Some [(''COUNT(*)'', [])]\<rparr>) =
      (Inr [[SInt 2]], shop_up\<lparr>served := 1, pdesc := Some [(''COUNT(*)'', [])]\<rparr>)"
    by (simp add: shop_defs)
  have cl: "cursor_close shop_driver (shop_up\<lparr>served := 1, pdesc := Some [(''COUNT(*)'', [])]\<rparr>) =
      (Inr (), shop_up\<lparr>served := 1\<rparr>)"
    by (simp add: shop_defs)
  have d: "cursor_description shop_driver (shop_up\<lparr>served := 1, pdesc := Some [(''COUNT(*)'', [])]\<rparr>) =
      Some [(''COUNT(*)'', [])]"
    by (simp add: shop_defs)
  from execute_query_columns [OF c x f cl] d
  show "execute_query shop_driver ''SELECT COUNT(*) FROM users;'' shop_up =
     (Inr (PyList [[SInt 2]], [''COUNT(*)'']), shop_up\<lparr>served := 1\<rparr>)"
    by simp
qed

section \<open>The test of the caller on the result of execute_query\<close>

lemma respond_list_history:
  assumes "execute_query (db e) sql (ext s) = (Inr (PyList rows, cols), w')"
  shows "chat_history (snd (respond e sql s)) =
           chat_history s @
             (if rows = [] then [AIMessage (no_results_text sql)]
              else case DataFrame e rows cols of
                     Inl y \<Rightarrow> []
                   | Inr df \<Rightarrow> [AIMessage (results_text sql)])"
proof (cases "rows = []")
  case True
  with respond_no_rows [of e sql s cols w'] assms show ?thesis by simp
next
  case False
  show ?thesis
  proof (cases "DataFrame e rows cols")
    case (Inl y)
    with respond_frame_raises [OF assms False Inl] False show ?thesis by simp
  next
    case (Inr df)
    show ?thesis
    proof (cases "st_dataframe e df")
      case (Inl y)
      with respond_widget_raises [OF assms False Inr Inl] Inr False show ?thesis by simp
    next
      case r: (Inr u)
      with respond_rows [OF assms False Inr r] Inr False show ?thesis by simp
    qed
  qed
qed

text \<open>
  Claim C10. The pair that \<^verbatim>\<open>execute_query\<close> returns is told apart by the type of its
  first component, and the caller's test never takes one case for the other. When the
  four driver calls return, the first component is the list that \<^verbatim>\<open>fetchall\<close>
  produced, it is not a string, and the caller takes the success branch (the no-results
  turn, the results turn, or no turn when the data frame cannot be built). When a driver
  call raises, the pair is the text of that error with the empty list, and the caller
  appends the error turn with that text. So the result is a string exactly when a
  driver call raised, and a list exactly when all of them returned.
\<close>

theorem result_type_discriminates:
  assumes "execute_query (db e) sql (ext s) = (Inr (result, columns), w')"
  shows "(\<forall>u w1 v w2 rows w3 c w4.
            db_cursor (db e) (ext s) = (Inr u, w1) \<longrightarrow>
            cursor_execute (db e) sql w1 = (Inr v, w2) \<longrightarrow>
            cursor_fetchall (db e) w2 = (Inr rows, w3) \<longrightarrow>
            cursor_close (db e) w3 = (Inr c, w4) \<longrightarrow>
              result = PyList rows \<and> \<not> isinstance_str result
            \<and> chat_history (snd (respond e sql s)) =
                chat_history s @
                  (if rows = [] then [AIMessage (no_results_text sql)]
                   else case DataFrame e rows columns of
                          Inl y \<Rightarrow> []
                        | Inr df \<Rightarrow> [AIMessage (results_text sql)]))
    \<and> (\<forall>x v. query_call_fails (db e) sql (ext s) x v \<longrightarrow>
              result = PyStr (str_exn x) \<and> columns = [] \<and> isinstance_str result
            \<and> chat_history (snd (respond e sql s)) =
                chat_history s @ [AIMessage (error_text sql (str_exn x))])
    \<and> (isinstance_str result \<longleftrightarrow> (\<exists>x v. query_call_fails (db e) sql (ext s) x v))
    \<and> (\<not> isinstance_str result \<longleftrightarrow>
          (\<exists>u w1 v w2 rows w3 c w4.
             db_cursor (db e) (ext s) = (Inr u, w1)
           \<and> cursor_execute (db e) sql w1 = (Inr v, w2)
           \<and> cursor_fetchall (db e) w2 = (Inr rows, w3)
           \<and> cursor_close (db e) w3 = (Inr c, w4)))"
proof -
  have returned: "result = PyList rows \<and> \<not> isinstance_str result
      \<and> chat_history (snd (respond e sql s)) =
          chat_history s @
            (if rows = [] then [AIMessage (no_results_text sql)]
             else case DataFrame e rows columns of
                    Inl y \<Rightarrow> []
                  | Inr df \<Rightarrow> [AIMessage (results_text sql)])"
    if "db_cursor (db e) (ext s) = (Inr u, w1)" "cursor_execute (db e) sql w1 = (Inr v, w2)"
      "cursor_fetchall (db e) w2 = (Inr rows, w3)" "cursor_close (db e) w3 = (Inr c, w4)"
    for u w1 v w2 rows w3 c w4
  proof -
    from execute_query_Inr [OF query_try_returns [OF that]] assms
    have r: "result = PyList rows"
      by simp
    with assms have "execute_query (db e) sql (ext s) = (Inr (PyList rows, columns), w')"
      by simp
    from respond_list_history [OF this] r show ?thesis by simp
  qed
  have raised: "result = PyStr (str_exn x) \<and> columns = [] \<and> isinstance_str result
      \<and> chat_history (snd (respond e sql s)) =
          chat_history s @ [AIMessage (error_text sql (str_exn x))]"
    if "query_call_fails (db e) sql (ext s) x v" for x v
  proof -
    from execute_query_Inl [OF query_call_fails_raises [OF that]] assms
    have r: "result = PyStr (str_exn x)" "columns = []" "v = w'"
      by simp_all
    with assms have "execute_query (db e) sql (ext s) = (Inr (PyStr (str_exn x), []), w')"
      by simp
    from respond_error [OF this] r show ?thesis by simp
  qed
  have "isinstance_str result \<longleftrightarrow> (\<exists>x v. query_call_fails (db e) sql (ext s) x v)"
    by (cases rule: query_calls_cases [of "db e" sql "ext s"]) (use returned raised in blast)+
  moreover have "\<not> isinstance_str result \<longleftrightarrow>
      (\<exists>u w1 v w2 rows w3 c w4.
         db_cursor (db e) (ext s) = (Inr u, w1)
       \<and> cursor_execute (db e) sql w1 = (Inr v, w2)
       \<and> cursor_fetchall (db e) w2 = (Inr rows, w3)
       \<and> cursor_close (db e) w3 = (Inr c, w4))"
    by (cases rule: query_calls_cases [of "db e" sql "ext s"]) (use returned raised in blast)+
  ultimately show ?thesis
    using returned raised by blast
qed

text \<open>
  The connection lost while fetching: the statement itself was accepted, the result is
  a string, and the turn is the error turn. The counting query: all calls return, the
  result is the fetched list, and the turn is the results turn.
\<close>

theorem result_type_discriminates_witness:
  "execute_query lossy_driver ''SELECT COUNT(*) FROM users;'' shop_up =
     (Inr (PyStr ''2013: Lost connection to MySQL server during query'', []),
      shop_up\<lparr>served := 1, pending := Some [[SInt 2]], pdesc := Some [(''COUNT(*)'', [])]\<rparr>)
   \<and> chat_history (snd (respond ((answering [])\<lparr>db := lossy_driver\<rparr>)
        ''SELECT COUNT(*) FROM users;'' (session0 shop_up))) =
       [greeting, AIMessage (error_text ''SELECT COUNT(*) FROM users;''
                    ''2013: Lost connection to MySQL server during query'')]
   \<and> execute_query shop_driver ''SELECT COUNT(*) FROM users;'' shop_up =
     (Inr (PyList [[SInt 2]], [''COUNT(*)'']), shop_up\<lparr>served := 1\<rparr>)
   \<and> \<not> isinstance_str (PyList [[SInt 2]])
   \<and> chat_history (snd (respond (answering []) ''SELECT COUNT(*) FROM users;''
        (session0 shop_up))) =
       [greeting, AIMessage (results_text ''SELECT COUNT(*) FROM users;'')]"
proof -
  let ?q = "''SELECT COUNT(*) FROM users;''"
  let ?w2 = "shop_up\<lparr>served := 1, pending := Some [[SInt 2]], pdesc := Some [(''COUNT(*)'', [])]\<rparr>"
  let ?w3 = "shop_up\<lparr>served := 1, pdesc := Some [(''COUNT(*)'', [])]\<rparr>"
  let ?l = "(answering [])\<lparr>db := lossy_driver\<rparr>"
  let ?a = "answering [] :: (shop, frame) env"
  let ?s = "session0 shop_up"
  have lost: "query_call_fails (db ?l) ?q (ext ?s)
      (OtherError ''2013: Lost connection to MySQL server during query'') ?w2"
    by (rule query_fetch_raises [where ?w1.0 = shop_up and u = "()" and ?w2.0 = ?w2 and v = "()"])
       (simp_all add: lossy_driver_def shop_defs session0_def)
  have xl: "execute_query (db ?l) ?q (ext ?s) =
      (Inr (PyStr ''2013: Lost connection to MySQL server during query'', []), ?w2)"
    by (simp add: execute_query_def query_try_def py_defs lossy_driver_def shop_defs session0_def)
  have c: "db_cursor (db ?a) (ext ?s) = (Inr (), shop_up)"
    and x: "cursor_execute (db ?a) ?q shop_up = (Inr (), ?w2)"
    and f: "cursor_fetchall (db ?a) ?w2 = (Inr [[SInt 2]], ?w3)"
    and cl: "cursor_close (db ?a) ?w3 = (Inr (), shop_up\<lparr>served := 1\<rparr>)"
    by (simp_all add: answering_def shop_defs session0_def)
  have xa: "execute_query (db ?a) ?q (ext ?s) =
      (Inr (PyList [[SInt 2]], [''COUNT(*)'']), shop_up\<lparr>served := 1\<rparr>)"
    by (simp add: execute_query_def query_try_def py_defs answering_def shop_defs session0_def
          column_names_def)
  have df: "DataFrame ?a [[SInt 2]] [''COUNT(*)''] = Inr ([[SInt 2]], [''COUNT(*)''])"
    by (simp add: answering_def)
  note failing = result_type_discriminates [OF xl, THEN conjunct2, THEN conjunct1,
      rule_format, OF lost]
  note returning = result_type_discriminates [OF xa, THEN conjunct1, rule_format, OF c x f cl]
  have A: "execute_query lossy_driver ?q shop_up =
      (Inr (PyStr ''2013: Lost connection to MySQL server during query'', []), ?w2)"
    using xl by (simp add: session0_def)
  have B: "chat_history (snd (respond ?l ?q ?s)) =
      [greeting, AIMessage (error_text ?q
         ''2013: Lost connection to MySQL server during query'')]"
    using failing by (simp add: session0_def)
  have C: "execute_query shop_driver ?q shop_up =
      (Inr (PyList [[SInt 2]], [''COUNT(*)'']), shop_up\<lparr>served := 1\<rparr>)"
    using xa by (simp add: answering_def session0_def)
  have D: "\<not> isinstance_str (PyList [[SInt 2]])"
    using returning by simp
  have E: "chat_history (snd (respond ?a ?q ?s)) =
      [greeting, AIMessage (results_text ?q)]"
    using returning df by (simp add: session0_def)
  from A B C D E show ?thesis by blast
qed

end
